theory Spec2Isabelle
  imports Complex_Main "HOL-Library.AList" "HOL-Library.Multiset" "HOL-Library.Log_Nat"
begin

section \<open>Conventions of the embedding\<close>

text \<open>
  The development follows the Python sources of the \<open>labx\<close> package.

  \<^item> A Python \<open>str\<close> is a sequence of Unicode code points, so it is modelled as a
    list of natural numbers (\<open>pystr\<close>); \<open>cps\<close> turns an ASCII literal into that form.
  \<^item> A Python \<open>float\<close> that takes part in arithmetic is modelled by the real number
    it denotes, and every operation rounds its exact result to the nearest double (see
    the next section).  Infinities, NaN and the sign of zero are not values of that
    type.  The merge engine does no arithmetic on floats and only prints them; its
    records take the type of floats as a parameter, so that its properties hold for
    every float, special values included.
  \<^item> A \<open>datetime.date\<close> is modelled by its proleptic ordinal (\<open>date.toordinal()\<close>),
    which carries the order used by \<open>sorted(..., key=lambda o: o.date)\<close>.
  \<^item> An ordered \<open>dict\<close> is an association list with distinct keys, in insertion
    order; storing under an existing key replaces the value in place.
\<close>

type_synonym pystr = "nat list"

definition cps :: "string \<Rightarrow> pystr" where
  "cps s = map of_char s"


section \<open>Floating-point arithmetic of the Python runtime\<close>

text \<open>
  A Python \<open>float\<close> is an IEEE-754 binary64 number.  \<open>expo x\<close> is the binary exponent
  of \<open>x\<close>, the integer \<open>e\<close> with \<open>2 ^ e \<le> |x| < 2 ^ (e + 1)\<close>; \<open>ulp x\<close> is the spacing of the
  doubles around \<open>x\<close> (53 significant bits, the spacing of the subnormal numbers below
  \<open>2 ^ (-1022)\<close>); \<open>rnd64 x\<close> is the double nearest to \<open>x\<close>, a tie going to the even
  significand.  A result beyond the largest double, which Python turns into an
  infinity, is left on the unbounded grid: it still compares greater than every double.

  \<open>flt\<close> is the value of a decimal literal of the source, \<open>fl_add\<close>, \<open>fl_sub\<close>,
  \<open>fl_mul\<close> and \<open>fl_div\<close> are the four operations, and \<open>is_double x\<close> says that \<open>x\<close> is a
  finite double.  \<open>py_round x n\<close> is \<open>round(x, n)\<close>: the exact value of \<open>x\<close> rounded to \<open>n\<close>
  decimals, a tie going to the even digit, and the double nearest to that decimal.
\<close>

definition round_half_even :: "real \<Rightarrow> int" where
  "round_half_even x =
     (let f = \<lfloor>x\<rfloor>; d = x - of_int f
      in if d < 1/2 then f else if d > 1/2 then f + 1
         else if even f then f else f + 1)"

definition expo :: "real \<Rightarrow> int" where
  "expo x =
     (if 1 \<le> \<bar>x\<bar> then bitlen \<lfloor>\<bar>x\<bar>\<rfloor> - 1 else - bitlen (\<lceil>1 / \<bar>x\<bar>\<rceil> - 1))"

definition ulp :: "real \<Rightarrow> real" where
  "ulp x = 2 powi (max (expo x) (- 1022) - 52)"

definition rnd64 :: "real \<Rightarrow> real" where
  "rnd64 x = (if x = 0 then 0 else of_int (round_half_even (x / ulp x)) * ulp x)"

definition flt :: "real \<Rightarrow> real" where
  "flt x = rnd64 x"

definition is_double :: "real \<Rightarrow> bool" where
  "is_double x = (rnd64 x = x \<and> \<bar>x\<bar> < 2 ^ 1024)"

definition fl_add :: "real \<Rightarrow> real \<Rightarrow> real" where
  "fl_add x y = rnd64 (x + y)"

definition fl_sub :: "real \<Rightarrow> real \<Rightarrow> real" where
  "fl_sub x y = rnd64 (x - y)"

definition fl_mul :: "real \<Rightarrow> real \<Rightarrow> real" where
  "fl_mul x y = rnd64 (x * y)"

definition fl_div :: "real \<Rightarrow> real \<Rightarrow> real" where
  "fl_div x y = rnd64 (x / y)"

definition py_round :: "real \<Rightarrow> nat \<Rightarrow> real" where
  "py_round x ndigits = rnd64 (of_int (round_half_even (x * 10 ^ ndigits)) / 10 ^ ndigits)"

section \<open>Domain model (\<open>labx/domain/models.py\<close>)\<close>

datatype Flag = Flag_normal | Flag_low | Flag_high | Flag_critical_low | Flag_critical_high

datatype TrendDirection = improving | worsening | stable | fluctuating

text \<open>
  The records that hold floats take the type of floats as the parameter \<open>'f\<close>.  The
  flag engine, the trend engine and the severity scorer compute with them and use
  \<open>real\<close>, the doubles of the section above.
\<close>

record 'f ReferenceRange =
  low :: "'f option"
  high :: "'f option"
  raw_text :: pystr

definition is_bounded :: "'f ReferenceRange \<Rightarrow> bool" where
  "is_bounded ref = (low ref \<noteq> None \<or> high ref \<noteq> None)"

section \<open>Constants (\<open>labx/config/constants.py\<close>)\<close>

definition DEFAULT_CRITICAL_MULTIPLIER :: real where
  "DEFAULT_CRITICAL_MULTIPLIER = flt 0.50"

definition CRITICAL_MULTIPLIER_OVERRIDES :: "(pystr \<times> real) list" where
  "CRITICAL_MULTIPLIER_OVERRIDES =
     [(cps ''potassium'', flt 0.20),
      (cps ''sodium'', flt 0.10),
      (cps ''glucose'', flt 0.50),
      (cps ''calcium'', flt 0.25),
      (cps ''magnesium'', flt 0.30),
      (cps ''phosphate'', flt 0.30),
      (cps ''troponin_i'', flt 0.0),
      (cps ''troponin_t'', flt 0.0),
      (cps ''inr'', flt 0.50)]"

section \<open>Flag engine (\<open>labx/domain/flags.py\<close>)\<close>

text \<open>
  \<open>dict_get d k default\<close> is \<open>d.get(k, default)\<close>.
  \<open>py_or x d\<close> is Python's \<open>x or d\<close> for an optional float \<open>x\<close>: the default is taken
  when \<open>x\<close> is \<open>None\<close> and also when it is \<open>0.0\<close>, which is falsy.
\<close>

definition dict_get :: "('k \<times> 'v) list \<Rightarrow> 'k \<Rightarrow> 'v \<Rightarrow> 'v" where
  "dict_get d k dflt = (case map_of d k of Some v \<Rightarrow> v | None \<Rightarrow> dflt)"

definition py_or :: "real option \<Rightarrow> real \<Rightarrow> real" where
  "py_or x d = (case x of None \<Rightarrow> d | Some v \<Rightarrow> if v = 0 then d else v)"

definition multiplier_for :: "pystr \<Rightarrow> real" where
  "multiplier_for analyte_key =
     dict_get CRITICAL_MULTIPLIER_OVERRIDES analyte_key DEFAULT_CRITICAL_MULTIPLIER"

definition compute_flag :: "real \<Rightarrow> real ReferenceRange \<Rightarrow> pystr \<Rightarrow> Flag" where
  "compute_flag v ref analyte_key =
     (if \<not> is_bounded ref then Flag_normal
      else
        let multiplier = multiplier_for analyte_key in
        if high ref \<noteq> None \<and> v > the (high ref) then
          (let span = fl_sub (the (high ref)) (py_or (low ref) (flt 0.0));
               threshold = (if span > 0 then fl_add (the (high ref)) (fl_mul span multiplier)
                            else the (high ref))
           in if v > threshold then Flag_critical_high else Flag_high)
        else if low ref \<noteq> None \<and> v < the (low ref) then
          (let span = fl_sub (py_or (high ref) (the (low ref))) (the (low ref));
               threshold = (if span > 0 then fl_sub (the (low ref)) (fl_mul span multiplier)
                            else the (low ref))
           in if v < threshold then Flag_critical_low else Flag_low)
        else Flag_normal)"


section \<open>Observations, analytes, reports and trends (\<open>labx/domain/models.py\<close>)\<close>

text \<open>
  Field names follow the Pydantic models.  The field \<open>value\<close> of an observation is
  \<open>obs_value\<close> here.  Where two models share a field name the later record carries a
  prefix (\<open>report_source_image_id\<close>, \<open>trend_analyte_key\<close>, \<open>trend_display_name\<close>,
  \<open>trend_observations\<close>).  The report fields that no modelled function reads
  (\<open>captured_at\<close>, \<open>patient\<close>, \<open>raw_json\<close>) are not listed; the merge engine accepts
  reports with any further fields in the extension slot of the record.
\<close>

record 'f Observation =
  date :: nat
  obs_value :: 'f
  raw_value :: pystr
  flag_extracted :: "Flag option"
  flag_computed :: "Flag option"
  source_image_id :: pystr

record 'f LabAnalyte =
  raw_name :: pystr
  raw_unit :: pystr
  raw_range_text :: pystr
  analyte_key :: pystr
  display_name :: pystr
  unit :: pystr
  unit_canonical :: pystr
  ref_range :: "'f ReferenceRange"
  observations :: "'f Observation list"

record 'f LabPanel =
  panel_name :: pystr
  results :: "'f LabAnalyte list"

record 'f LabReport =
  report_source_image_id :: pystr
  panels :: "'f LabPanel list"

record LabTrend =
  trend_analyte_key :: pystr
  trend_display_name :: pystr
  direction :: TrendDirection
  pct_change :: real
  latest_value :: "real option"
  latest_flag :: "Flag option"
  severity_score :: real
  trend_observations :: "real Observation list"

section \<open>Sorting as the Python runtime does it\<close>

text \<open>
  \<open>py_sorted key xs\<close> is \<open>sorted(xs, key=key)\<close>, a stable sort.
  \<open>py_sorted_reverse key xs\<close> is \<open>sorted(xs, key=key, reverse=True)\<close>:
  the runtime reverses the list, sorts it with a stable ascending sort and reverses
  the result, which keeps equal keys in input order.
\<close>

definition py_sorted :: "('a \<Rightarrow> 'k::linorder) \<Rightarrow> 'a list \<Rightarrow> 'a list" where
  "py_sorted key xs = sort_key key xs"

definition py_sorted_reverse :: "('a \<Rightarrow> 'k::linorder) \<Rightarrow> 'a list \<Rightarrow> 'a list" where
  "py_sorted_reverse key xs = rev (sort_key key (rev xs))"

section \<open>Severity scorer (\<open>labx/domain/severity.py\<close>)\<close>

definition FLAG_WEIGHT :: "(Flag \<times> real) list" where
  "FLAG_WEIGHT =
     [(Flag_critical_high, flt 100.0),
      (Flag_critical_low, flt 100.0),
      (Flag_high, flt 50.0),
      (Flag_low, flt 50.0),
      (Flag_normal, flt 0.0)]"

definition DIRECTION_WEIGHT :: "(TrendDirection \<times> real) list" where
  "DIRECTION_WEIGHT =
     [(worsening, flt 30.0),
      (fluctuating, flt 15.0),
      (stable, flt 0.0),
      (improving, - flt 10.0)]"

text \<open>\<open>flag_or f d\<close> is \<open>f or d\<close> for an optional flag: every member of the enum is truthy.\<close>

definition flag_or :: "Flag option \<Rightarrow> Flag \<Rightarrow> Flag" where
  "flag_or f d = (case f of None \<Rightarrow> d | Some x \<Rightarrow> x)"

definition compute_severity :: "'a LabTrend_scheme \<Rightarrow> real" where
  "compute_severity trend =
     (let flag_w = dict_get FLAG_WEIGHT (flag_or (latest_flag trend) Flag_normal) (flt 0.0);
          dir_w = dict_get DIRECTION_WEIGHT (direction trend) (flt 0.0);
          mag_w = fl_mul (min \<bar>pct_change trend\<bar> (flt 200.0)) (flt 0.1)
      in py_round (fl_add (fl_add flag_w dir_w) mag_w) 2)"

definition sort_trends_by_severity :: "LabTrend list \<Rightarrow> LabTrend list" where
  "sort_trends_by_severity trends =
     (let scored = map (\<lambda>t. t\<lparr>severity_score := compute_severity t\<rparr>) trends
      in py_sorted_reverse severity_score scored)"

section \<open>Trend engine (\<open>labx/domain/trends.py\<close>)\<close>

text \<open>
  \<open>pct_change_of\<close>, \<open>slope_sign\<close>, \<open>is_fluctuating\<close> and \<open>determine_direction\<close> are the
  module's \<open>_pct_change\<close>, \<open>_slope_sign\<close>, \<open>_is_fluctuating\<close> and \<open>_determine_direction\<close>.
\<close>

definition pct_change_of :: "real \<Rightarrow> real \<Rightarrow> real" where
  "pct_change_of first last_v =
     (if first = 0 then (if last_v = 0 then flt 0.0 else flt 100.0)
      else fl_mul (fl_div (fl_sub last_v first) \<bar>first\<bar>) (flt 100.0))"

definition slope_sign :: "real Observation list \<Rightarrow> int" where
  "slope_sign obs =
     (if length obs < 2 then 0
      else
        let diffs = map (\<lambda>i. fl_sub (obs_value (obs ! i)) (obs_value (obs ! (i - 1))))
                        [1 ..< length obs];
            positive = length (filter (\<lambda>d. d > 0) diffs);
            negative = length (filter (\<lambda>d. d < 0) diffs)
        in if positive > negative then 1
           else if negative > positive then -1
           else 0)"

text \<open>
  The loop of \<open>_is_fluctuating\<close> carries the pair \<open>(reversals, prev_sign)\<close>;
  \<open>fluct_step obs\<close> is one iteration of its body at index \<open>i\<close>.
\<close>

definition fluct_step ::
    "real Observation list \<Rightarrow> nat \<Rightarrow> nat \<times> int \<Rightarrow> nat \<times> int" where
  "fluct_step obs i st =
     (let reversals = fst st; prev_sign = snd st;
          d = fl_sub (obs_value (obs ! i)) (obs_value (obs ! (i - 1)));
          sign = (if d > 0 then 1 else if d < 0 then -1 else 0);
          reversals' = (if sign \<noteq> 0 \<and> prev_sign \<noteq> 0 \<and> sign \<noteq> prev_sign
                        then reversals + 1 else reversals);
          prev_sign' = (if sign \<noteq> 0 then sign else prev_sign)
      in (reversals', prev_sign'))"

definition is_fluctuating :: "real Observation list \<Rightarrow> bool" where
  "is_fluctuating obs =
     (if length obs < 3 then False
      else fst (fold (fluct_step obs) [1 ..< length obs] (0, 0)) \<ge> 2)"

definition determine_direction :: "real Observation list \<Rightarrow> Flag \<Rightarrow> TrendDirection" where
  "determine_direction obs latest_flag_v =
     (if length obs < 2 then stable
      else if is_fluctuating obs then fluctuating
      else
        let slope = slope_sign obs in
        if latest_flag_v = Flag_high \<or> latest_flag_v = Flag_critical_high then
          (if slope < 0 then improving
           else if slope > 0 then worsening
           else stable)
        else if latest_flag_v = Flag_low \<or> latest_flag_v = Flag_critical_low then
          (if slope > 0 then improving
           else if slope < 0 then worsening
           else stable)
        else stable)"

text \<open>
  \<open>compute_trend\<close>.  The first branch is the constructor call with defaults for an
  analyte without observations.  \<open>obs[-1]\<close> and \<open>obs[0]\<close> are read only on a non-empty
  list.
\<close>

definition compute_trend :: "(real, 'a) LabAnalyte_scheme \<Rightarrow> LabTrend" where
  "compute_trend analyte =
     (let obs = py_sorted date (observations analyte) in
      if obs = [] then
        \<lparr>trend_analyte_key = analyte_key analyte,
         trend_display_name = display_name analyte,
         direction = stable, pct_change = flt 0.0, latest_value = None,
         latest_flag = None, severity_score = flt 0.0, trend_observations = []\<rparr>
      else
        let latest = last obs;
            earliest = hd obs;
            pct = pct_change_of (obs_value earliest) (obs_value latest);
            latest_flag_v =
              flag_or (flag_computed latest) (flag_or (flag_extracted latest) Flag_normal);
            dir = determine_direction obs latest_flag_v
        in \<lparr>trend_analyte_key = analyte_key analyte,
            trend_display_name = display_name analyte,
            direction = dir, pct_change = py_round pct 2,
            latest_value = Some (obs_value latest),
            latest_flag = Some latest_flag_v, severity_score = flt 0.0,
            trend_observations = obs\<rparr>)"

subsection \<open>The severity weights as the specification words them\<close>

text \<open>
  These three functions are written from the specification's sentence, not from the
  code; they are compared with \<open>compute_severity\<close> below.  The weights are whole
  numbers, which are doubles; the product \<open>min(|pct_change|, 200) * 0.1\<close> is the
  floating-point product with the double nearest to 0.1.
\<close>

fun spec_flag_weight :: "Flag option \<Rightarrow> real" where
  "spec_flag_weight (Some Flag_critical_high) = 100"
| "spec_flag_weight (Some Flag_critical_low) = 100"
| "spec_flag_weight (Some Flag_high) = 50"
| "spec_flag_weight (Some Flag_low) = 50"
| "spec_flag_weight (Some Flag_normal) = 0"
| "spec_flag_weight None = 0"

fun spec_direction_weight :: "TrendDirection \<Rightarrow> real" where
  "spec_direction_weight worsening = 30"
| "spec_direction_weight fluctuating = 15"
| "spec_direction_weight stable = 0"
| "spec_direction_weight improving = -10"

definition spec_magnitude_weight :: "real \<Rightarrow> real" where
  "spec_magnitude_weight pct = fl_mul (min \<bar>pct\<bar> 200) (flt 0.1)"

subsection \<open>Constructors with the models' defaults\<close>

text \<open>
  \<open>Observation_init d v\<close> is \<open>Observation(date=d, value=v)\<close>, \<open>LabAnalyte_init\<close> is
  \<open>LabAnalyte()\<close> and \<open>ReferenceRange_init\<close> is \<open>ReferenceRange()\<close>: every other field
  takes the default of the Pydantic model.
\<close>

definition ReferenceRange_init :: "'f ReferenceRange" where
  "ReferenceRange_init = \<lparr>low = None, high = None, raw_text = []\<rparr>"

definition Observation_init :: "nat \<Rightarrow> 'f \<Rightarrow> 'f Observation" where
  "Observation_init d v =
     \<lparr>date = d, obs_value = v, raw_value = [], flag_extracted = None,
      flag_computed = None, source_image_id = []\<rparr>"

definition LabAnalyte_init :: "'f LabAnalyte" where
  "LabAnalyte_init =
     \<lparr>raw_name = [], raw_unit = [], raw_range_text = [], analyte_key = [],
      display_name = [], unit = [], unit_canonical = [],
      ref_range = ReferenceRange_init, observations = []\<rparr>"

section \<open>Merge engine (\<open>labx/pipeline/merge.py\<close>)\<close>

subsection \<open>Keys\<close>

text \<open>
  The keys of the merge engine are strings.  They are built from three conversions of
  the runtime, which are the parameter \<open>F\<close>: \<open>isoformat\<close> is \<open>date.isoformat()\<close>,
  \<open>float_str\<close> is the text that an f-string writes for a float (\<open>f"{obs.value}"\<close>, the
  \<open>repr\<close> of the float) and \<open>float_4f\<close> is the format \<open>f"{x:.4f}"\<close>.  Nothing is assumed
  about them: two floats that compare equal and are written differently, as \<open>0.0\<close> and
  \<open>-0.0\<close> are, have different keys, and so have two floats that are written alike.
\<close>

record 'f formatter =
  isoformat :: "nat \<Rightarrow> pystr"
  float_str :: "'f \<Rightarrow> pystr"
  float_4f :: "'f \<Rightarrow> pystr"

definition range_signature :: "'f formatter \<Rightarrow> 'f ReferenceRange \<Rightarrow> pystr" where
  "range_signature F ref =
     (let lo = (case low ref of Some l \<Rightarrow> float_4f F l | None \<Rightarrow> cps ''None'');
          hi = (case high ref of Some h \<Rightarrow> float_4f F h | None \<Rightarrow> cps ''None'')
      in lo @ cps ''|'' @ hi)"

definition obs_key :: "'f formatter \<Rightarrow> ('f, 'a) Observation_scheme \<Rightarrow> pystr" where
  "obs_key F obs = isoformat F (date obs) @ cps ''|'' @ float_str F (obs_value obs)"

definition merge_key :: "'f formatter \<Rightarrow> ('f, 'a) LabAnalyte_scheme \<Rightarrow> pystr" where
  "merge_key F analyte =
     analyte_key analyte @ cps ''|'' @ unit_canonical analyte @ cps ''|''
       @ range_signature F (ref_range analyte)"

subsection \<open>The accumulator and the three nested loops\<close>

text \<open>
  The accumulator \<open>merged\<close> maps a merge key to a template analyte and a dictionary of
  observations.  Both dictionaries keep insertion order (\<open>AList.update\<close> replaces the
  value of a present key in place and appends an absent one).

  \<open>tag_and_store\<close> is the body of the innermost loop: it tags the observation with the
  image id of the report and stores it under its key.
  \<open>merge_analyte\<close> is the body of the loop over analytes: a key seen for the first
  time gets the analyte without observations as its template and an empty dictionary,
  then the observations of the analyte are stored in the dictionary of that key.
\<close>

type_synonym 'f obs_dict_t = "(pystr \<times> 'f Observation) list"
type_synonym 'f merged_t = "(pystr \<times> ('f LabAnalyte \<times> 'f obs_dict_t)) list"

definition tag_and_store ::
    "'f formatter \<Rightarrow> pystr \<Rightarrow> 'f Observation \<Rightarrow> 'f obs_dict_t \<Rightarrow> 'f obs_dict_t" where
  "tag_and_store F image_id obs obs_dict =
     (let obs' = obs\<lparr>source_image_id := image_id\<rparr>;
          ok = obs_key F obs'
      in AList.update ok obs' obs_dict)"

definition merge_analyte ::
    "'f formatter \<Rightarrow> pystr \<Rightarrow> 'f LabAnalyte \<Rightarrow> 'f merged_t \<Rightarrow> 'f merged_t" where
  "merge_analyte F image_id analyte merged =
     (let key = merge_key F analyte in
      case map_of merged key of
        None \<Rightarrow>
          (let template = analyte\<lparr>observations := []\<rparr>
           in AList.update key
                (template, fold (tag_and_store F image_id) (observations analyte) []) merged)
      | Some (template, obs_dict) \<Rightarrow>
          AList.update key
            (template, fold (tag_and_store F image_id) (observations analyte) obs_dict)
            merged)"

definition merge_panel ::
    "'f formatter \<Rightarrow> pystr \<Rightarrow> 'f LabPanel \<Rightarrow> 'f merged_t \<Rightarrow> 'f merged_t" where
  "merge_panel F image_id panel merged =
     fold (merge_analyte F image_id) (results panel) merged"

definition merge_report ::
    "'f formatter \<Rightarrow> ('f, 'a) LabReport_scheme \<Rightarrow> 'f merged_t \<Rightarrow> 'f merged_t" where
  "merge_report F report merged =
     fold (merge_panel F (report_source_image_id report)) (panels report) merged"

definition assemble :: "'f merged_t \<Rightarrow> 'f LabAnalyte list" where
  "assemble merged =
     map (\<lambda>(key, template, obs_dict).
            template\<lparr>observations := py_sorted date (map snd obs_dict)\<rparr>) merged"

definition merge_reports ::
    "'f formatter \<Rightarrow> ('f, 'a) LabReport_scheme list \<Rightarrow> 'f LabAnalyte list" where
  "merge_reports F reports = assemble (fold (merge_report F) reports [])"

text \<open>The total that \<open>merge_reports\<close> logs: \<open>sum(len(a.observations) for a in result)\<close>.\<close>

definition total_observations :: "'f LabAnalyte list \<Rightarrow> nat" where
  "total_observations result = sum_list (map (\<lambda>a. length (observations a)) result)"

subsection \<open>Notions used to reason about the accumulator\<close>

text \<open>
  \<open>report_items\<close> lists the analytes of a report in loop order, each with the image id
  of the report; \<open>merge_item\<close> is \<open>merge_analyte\<close> on such a pair.
  \<open>entry_for merged a\<close> is the template and dictionary that \<open>merge_analyte\<close> works on.
  \<open>wf_merged\<close> says that keys are distinct and that every entry is filed under its own
  key.  \<open>tagged merged k ok i\<close> says that under merge key \<open>k\<close> and observation key \<open>ok\<close>
  an observation with image id \<open>i\<close> is stored.  \<open>shape\<close> keeps the keys only, and
  \<open>covered merged a\<close> says that the keys of \<open>a\<close> are all present.
\<close>

definition report_items :: "('f, 'a) LabReport_scheme \<Rightarrow> (pystr \<times> 'f LabAnalyte) list" where
  "report_items report =
     concat (map (\<lambda>panel. map (Pair (report_source_image_id report)) (results panel))
                 (panels report))"

definition merge_item ::
    "'f formatter \<Rightarrow> pystr \<times> 'f LabAnalyte \<Rightarrow> 'f merged_t \<Rightarrow> 'f merged_t" where
  "merge_item F x merged = merge_analyte F (fst x) (snd x) merged"

definition entry_for ::
    "'f formatter \<Rightarrow> 'f merged_t \<Rightarrow> 'f LabAnalyte \<Rightarrow> 'f LabAnalyte \<times> 'f obs_dict_t" where
  "entry_for F merged analyte =
     (case map_of merged (merge_key F analyte) of
        None \<Rightarrow> (analyte\<lparr>observations := []\<rparr>, [])
      | Some e \<Rightarrow> e)"





definition shape :: "'f merged_t \<Rightarrow> (pystr \<times> pystr list) list" where
  "shape m = map (\<lambda>e. (fst e, map fst (snd (snd e)))) m"

definition covered :: "'f formatter \<Rightarrow> 'f merged_t \<Rightarrow> 'f LabAnalyte \<Rightarrow> bool" where
  "covered F m a =
     (case map_of m (merge_key F a) of
        None \<Rightarrow> False
      | Some e \<Rightarrow> list_all (\<lambda>ob. obs_key F ob \<in> set (map fst (snd e))) (observations a))"

subsection \<open>Fixtures of \<open>tests/test_merge.py\<close>\<close>

text \<open>
  \<open>make_report\<close> is the helper \<open>_make_report\<close> of the test module, and \<open>sodium_with os\<close>
  is the sodium analyte that its tests build around a list of observations.

  To run the engine on these fixtures a formatter is needed.  \<open>plain_formatter\<close> writes
  a date as the number of its day and a float in the format \<open>.4f\<close>, for both
  conversions of floats: \<open>fmt4f x\<close> is the sign of \<open>x\<close>, then \<open>|x|\<close> rounded to four decimals
  (ties to even), integer part, point and exactly four fraction digits.  It stands for
  the runtime in the examples only; the properties of the engine are proved for every
  formatter.
\<close>

definition make_report :: "pystr \<Rightarrow> 'f LabAnalyte list \<Rightarrow> 'f LabReport" where
  "make_report image_id analytes =
     \<lparr>report_source_image_id = image_id,
      panels = [\<lparr>panel_name = cps ''General'', results = analytes\<rparr>]\<rparr>"

definition sodium_with :: "real Observation list \<Rightarrow> real LabAnalyte" where
  "sodium_with os =
     LabAnalyte_init\<lparr>analyte_key := cps ''sodium'', unit_canonical := cps ''mmol/L'',
       ref_range := \<lparr>low = Some 136.0, high = Some 145.0, raw_text = []\<rparr>,
       observations := os\<rparr>"

fun str_of_nat :: "nat \<Rightarrow> pystr" where
  "str_of_nat n = (if n < 10 then [48 + n] else str_of_nat (n div 10) @ [48 + n mod 10])"

declare str_of_nat.simps [simp del]

definition zero_pad :: "nat \<Rightarrow> pystr \<Rightarrow> pystr" where
  "zero_pad w s = replicate (w - length s) 48 @ s"

definition fmt4f :: "real \<Rightarrow> pystr" where
  "fmt4f x =
     (let n = nat (round_half_even (\<bar>x\<bar> * 10 ^ 4))
      in (if x < 0 then cps ''-'' else []) @ str_of_nat (n div 10 ^ 4) @ cps ''.''
         @ zero_pad 4 (str_of_nat (n mod 10 ^ 4)))"

definition plain_formatter :: "real formatter" where
  "plain_formatter = \<lparr>isoformat = str_of_nat, float_str = fmt4f, float_4f = fmt4f\<rparr>"

section \<open>Strings and regular expressions of the Python runtime\<close>

subsection \<open>Character classes\<close>

text \<open>
  On ASCII the character classes of Python are fixed by the language and are written
  out here.  Beyond ASCII they are read from the Unicode database of the interpreter,
  which is not part of the repository and changes with its version: that part is the
  parameter \<open>U\<close> of every function that looks at characters.

  \<^item> \<open>u_isspace\<close>: \<open>str.isspace\<close>, also the class \<open>\s\<close> and what \<open>str.strip\<close> removes;
  \<^item> \<open>u_decimal\<close>: the value of a decimal digit (the class \<open>\d\<close>, and what \<open>float\<close> reads);
  \<^item> \<open>u_isword\<close>: the class \<open>\w\<close>;
  \<^item> \<open>u_lower\<close>, \<open>u_title\<close>: \<open>str.lower\<close> and \<open>str.title\<close> of a string that holds a
    non-ASCII code point;
  \<^item> \<open>u_imatch p c\<close>: under the flag \<open>(?i)\<close> the pattern letter \<open>p\<close> matches the
    non-ASCII code point \<open>c\<close>.
\<close>

record unicode_db =
  u_isspace :: "nat \<Rightarrow> bool"
  u_decimal :: "nat \<Rightarrow> nat option"
  u_isword :: "nat \<Rightarrow> bool"
  u_lower :: "pystr \<Rightarrow> pystr"
  u_title :: "pystr \<Rightarrow> pystr"
  u_imatch :: "nat \<Rightarrow> nat \<Rightarrow> bool"

definition is_ascii :: "nat \<Rightarrow> bool" where
  "is_ascii c = (c < 128)"

definition ascii_isupper :: "nat \<Rightarrow> bool" where
  "ascii_isupper c = (65 \<le> c \<and> c \<le> 90)"

definition ascii_islower :: "nat \<Rightarrow> bool" where
  "ascii_islower c = (97 \<le> c \<and> c \<le> 122)"

definition ascii_isdigit :: "nat \<Rightarrow> bool" where
  "ascii_isdigit c = (48 \<le> c \<and> c \<le> 57)"

definition ascii_lower :: "nat \<Rightarrow> nat" where
  "ascii_lower c = (if ascii_isupper c then c + 32 else c)"

definition ascii_upper :: "nat \<Rightarrow> nat" where
  "ascii_upper c = (if ascii_islower c then c - 32 else c)"

text \<open>
  ASCII white space of Python: tab, line feed, vertical tab, form feed, carriage
  return, the four separators \<open>0x1C\<close>--\<open>0x1F\<close> and the space.
\<close>

definition py_isspace :: "unicode_db \<Rightarrow> nat \<Rightarrow> bool" where
  "py_isspace U c =
     (if is_ascii c then (9 \<le> c \<and> c \<le> 13) \<or> (28 \<le> c \<and> c \<le> 31) \<or> c = 32
      else u_isspace U c)"

definition decimal_value :: "unicode_db \<Rightarrow> nat \<Rightarrow> nat option" where
  "decimal_value U c =
     (if is_ascii c then (if ascii_isdigit c then Some (c - 48) else None)
      else u_decimal U c)"

definition py_isdecimal :: "unicode_db \<Rightarrow> nat \<Rightarrow> bool" where
  "py_isdecimal U c = (decimal_value U c \<noteq> None)"

definition re_word :: "unicode_db \<Rightarrow> nat \<Rightarrow> bool" where
  "re_word U c =
     (if is_ascii c then ascii_isupper c \<or> ascii_islower c \<or> ascii_isdigit c \<or> c = 95
      else u_isword U c)"

subsection \<open>String methods\<close>

definition py_strip :: "unicode_db \<Rightarrow> pystr \<Rightarrow> pystr" where
  "py_strip U s = rev (dropWhile (py_isspace U) (rev (dropWhile (py_isspace U) s)))"

text \<open>\<open>py_rstrip_chars cs s\<close> is \<open>s.rstrip(cs)\<close>.\<close>

definition py_rstrip_chars :: "pystr \<Rightarrow> pystr \<Rightarrow> pystr" where
  "py_rstrip_chars cs s = rev (dropWhile (\<lambda>c. c \<in> set cs) (rev s))"

definition py_lower :: "unicode_db \<Rightarrow> pystr \<Rightarrow> pystr" where
  "py_lower U s = (if list_all is_ascii s then map ascii_lower s else u_lower U s)"

text \<open>
  \<open>py_split c s\<close> is \<open>s.split(c)\<close> for a separator of one character, and
  \<open>py_split_once c s\<close> is \<open>s.split(c, 1)\<close>.
\<close>

fun py_split :: "nat \<Rightarrow> pystr \<Rightarrow> pystr list" where
  "py_split sep [] = [[]]"
| "py_split sep (c # s) =
     (if c = sep then [] # py_split sep s
      else (case py_split sep s of
              [] \<Rightarrow> [[c]]
            | seg # segs \<Rightarrow> (c # seg) # segs))"

definition py_split_once :: "nat \<Rightarrow> pystr \<Rightarrow> pystr list" where
  "py_split_once sep s =
     (if sep \<in> set s then [takeWhile (\<lambda>c. c \<noteq> sep) s, tl (dropWhile (\<lambda>c. c \<noteq> sep) s)]
      else [s])"

subsection \<open>Exceptions as values\<close>

text \<open>
  A function that can raise returns \<open>py_exception + 'a\<close>, \<open>Inl\<close> carrying the exception.
  An \<open>ImageValidationError\<close> carries the reason that its message spells out.
\<close>

datatype validation_reason =
    TooManyImages nat int
  | NoImagesProvided
  | FileNotFound pystr
  | ImageTooLarge pystr real real
  | UnsupportedImageType "pystr option" pystr

datatype py_exception =
    ValueError
  | IndexError
  | OSError
  | ImageValidationError validation_reason
  | ProviderError pystr

definition and_then :: "'e + 'a \<Rightarrow> ('a \<Rightarrow> 'e + 'b) \<Rightarrow> 'e + 'b" where
  "and_then r f = (case r of Inl e \<Rightarrow> Inl e | Inr x \<Rightarrow> f x)"

text \<open>\<open>py_index xs i\<close> is \<open>xs[i]\<close> for an index that is not negative.\<close>

definition py_index :: "'a list \<Rightarrow> nat \<Rightarrow> py_exception + 'a" where
  "py_index xs i = (if i < length xs then Inr (xs ! i) else Inl IndexError)"

subsection \<open>\<open>float(s)\<close>\<close>

text \<open>
  \<open>digits_value\<close> reads a non-empty run of decimal digits.  \<open>py_float\<close> reads an optional
  sign, digits and an optional fraction of a point and digits, and returns the double
  nearest to the decimal number that they write.  Every other string is
  reported as \<open>ValueError\<close>: Python's \<open>float\<close> accepts more (exponents, \<open>inf\<close>, padding),
  so the model raises wherever Python does and possibly more often.
\<close>

definition digits_value :: "unicode_db \<Rightarrow> pystr \<Rightarrow> nat option" where
  "digits_value U s =
     (if s \<noteq> [] \<and> list_all (py_isdecimal U) s
      then Some (fold (\<lambda>c n. 10 * n + the (decimal_value U c)) s 0)
      else None)"

definition py_float :: "unicode_db \<Rightarrow> pystr \<Rightarrow> py_exception + real" where
  "py_float U s =
     (let negative = (s \<noteq> [] \<and> hd s = 45);
          body = (if s \<noteq> [] \<and> (hd s = 45 \<or> hd s = 43) then tl s else s);
          int_part = takeWhile (\<lambda>c. c \<noteq> 46) body;
          rest = dropWhile (\<lambda>c. c \<noteq> 46) body;
          sign = (if negative then -1 else 1)
      in if rest = [] then
           (case digits_value U int_part of
              None \<Rightarrow> Inl ValueError
            | Some n \<Rightarrow> Inr (rnd64 (sign * real n)))
         else
           (case (digits_value U int_part, digits_value U (tl rest)) of
              (Some n, Some f) \<Rightarrow>
                Inr (rnd64 (sign * (real n + real f / 10 ^ length (tl rest))))
            | _ \<Rightarrow> Inl ValueError))"

subsection \<open>A backtracking matcher\<close>

text \<open>
  Python's \<open>re\<close> is a backtracking matcher.  A pattern, tried at the head of a string,
  is modelled by the list of its possible matches in the order in which backtracking
  would reach them; a match is the text consumed (or the groups captured) together with
  the rest of the input.  The head of the list is the match that \<open>re\<close> reports.

  \<^item> \<open>m_class P\<close>: one character of a class; \<open>m_lit w\<close>: a literal;
  \<^item> \<open>m_opt m\<close>: the greedy \<open>m?\<close>; \<open>m_alt a b\<close>: \<open>a|b\<close>; \<open>m_seq a b\<close>: \<open>ab\<close>;
  \<^item> \<open>m_star_class P\<close> and \<open>m_plus_class P\<close>: the greedy \<open>[P]*\<close> and \<open>[P]+\<close>, the longest
    run first, then every shorter one;
  \<^item> \<open>re_search m s\<close>: \<open>pattern.search(s)\<close>, the first match at the leftmost position
    that has one (the end of the string included).
\<close>

type_synonym 'a matcher = "pystr \<Rightarrow> ('a \<times> pystr) list"

definition m_class :: "(nat \<Rightarrow> bool) \<Rightarrow> pystr matcher" where
  "m_class P s = (case s of [] \<Rightarrow> [] | c # r \<Rightarrow> if P c then [([c], r)] else [])"

definition m_lit :: "pystr \<Rightarrow> pystr matcher" where
  "m_lit w s = (if take (length w) s = w then [(w, drop (length w) s)] else [])"

definition m_opt :: "pystr matcher \<Rightarrow> pystr matcher" where
  "m_opt m s = m s @ [([], s)]"

definition m_alt :: "'a matcher \<Rightarrow> 'a matcher \<Rightarrow> 'a matcher" where
  "m_alt a b s = a s @ b s"

definition m_seq :: "pystr matcher \<Rightarrow> pystr matcher \<Rightarrow> pystr matcher" where
  "m_seq a b s = concat (map (\<lambda>(x, r). map (\<lambda>(y, r'). (x @ y, r')) (b r)) (a s))"

definition m_star_class :: "(nat \<Rightarrow> bool) \<Rightarrow> pystr matcher" where
  "m_star_class P s =
     map (\<lambda>k. (take k s, drop k s)) (rev [0 ..< Suc (length (takeWhile P s))])"

definition m_plus_class :: "(nat \<Rightarrow> bool) \<Rightarrow> pystr matcher" where
  "m_plus_class P s =
     map (\<lambda>k. (take k s, drop k s)) (rev [1 ..< Suc (length (takeWhile P s))])"

fun re_search :: "'a matcher \<Rightarrow> pystr \<Rightarrow> 'a option" where
  "re_search m [] = (case m [] of [] \<Rightarrow> None | x # _ \<Rightarrow> Some (fst x))"
| "re_search m (c # s) = (case m (c # s) of [] \<Rightarrow> re_search m s | x # _ \<Rightarrow> Some (fst x))"

text \<open>
  Under \<open>(?i)\<close> a letter of the pattern matches a character of the text with the same
  lower-case form; a pattern character that is not a letter matches itself only.
  \<open>m_ilit\<close> is a literal under that flag.  \<open>at_end\<close> is the anchor \<open>$\<close>: the end of the
  string, or the position before a final line feed.
\<close>

definition imatch :: "unicode_db \<Rightarrow> nat \<Rightarrow> nat \<Rightarrow> bool" where
  "imatch U p c =
     (if ascii_isupper p \<or> ascii_islower p then
        (if is_ascii c then ascii_lower c = ascii_lower p else u_imatch U p c)
      else c = p)"

fun m_ilit :: "unicode_db \<Rightarrow> pystr \<Rightarrow> pystr matcher" where
  "m_ilit U [] s = [([], s)]"
| "m_ilit U (p # w) [] = []"
| "m_ilit U (p # w) (c # s) =
     (if imatch U p c then map (\<lambda>(x, r). (c # x, r)) (m_ilit U w s) else [])"

definition at_end :: "pystr \<Rightarrow> bool" where
  "at_end s = (s = [] \<or> s = [10])"

section \<open>Unit normalizer (\<open>labx/domain/units.py\<close>)\<close>

text \<open>
  The two tables are the dictionaries \<open>_UNIT_ALIASES\<close> and \<open>_CONVERSIONS\<close> of the module,
  entry by entry; no key occurs twice.  The code point 181 is the micro sign.
\<close>

definition UNIT_ALIASES :: "(pystr \<times> pystr) list" where
  "UNIT_ALIASES =
     [(cps ''ml'', cps ''mL''),
      (cps ''dl'', cps ''dL''),
      (cps ''l'', cps ''L''),
      (cps ''mmol/l'', cps ''mmol/L''),
      (cps ''umol/l'', cps ''umol/L''),
      (([181] @ cps ''mol/l''), cps ''umol/L''),
      (cps ''nmol/l'', cps ''nmol/L''),
      (cps ''meq/l'', cps ''mEq/L''),
      (cps ''mg/dl'', cps ''mg/dL''),
      (cps ''mg/l'', cps ''mg/L''),
      (cps ''g/dl'', cps ''g/dL''),
      (cps ''g/l'', cps ''g/L''),
      (cps ''ng/ml'', cps ''ng/mL''),
      (cps ''ng/dl'', cps ''ng/dL''),
      (cps ''pg/ml'', cps ''pg/mL''),
      (cps ''ug/ml'', cps ''ug/mL''),
      (([181] @ cps ''g/ml''), cps ''ug/mL''),
      (cps ''iu/l'', cps ''IU/L''),
      (cps ''u/l'', cps ''U/L''),
      (cps ''iu/ml'', cps ''IU/mL''),
      (cps ''x10^9/l'', cps ''x10^9/L''),
      (cps ''x10^12/l'', cps ''x10^12/L''),
      (cps ''x10e9/l'', cps ''x10^9/L''),
      (cps ''x10e12/l'', cps ''x10^12/L''),
      (cps ''10^9/l'', cps ''x10^9/L''),
      (cps ''10^12/l'', cps ''x10^12/L''),
      (cps ''thou/ul'', cps ''x10^3/uL''),
      (cps ''mil/ul'', cps ''x10^6/uL''),
      (cps ''k/ul'', cps ''x10^3/uL''),
      (cps ''%'', cps ''%''),
      (cps ''percent'', cps ''%''),
      (cps ''sec'', cps ''s''),
      (cps ''seconds'', cps ''s''),
      (cps ''s'', cps ''s''),
      (cps ''fl'', cps ''fL''),
      (cps ''pg'', cps ''pg''),
      (cps ''mm/hr'', cps ''mm/hr''),
      (cps ''mm/h'', cps ''mm/hr''),
      (cps ''ratio'', cps ''ratio'')]"

definition CONVERSIONS :: "((pystr \<times> pystr) \<times> real) list" where
  "CONVERSIONS =
     [((cps ''g/dL'', cps ''g/L''), flt 10.0),
      ((cps ''g/L'', cps ''g/dL''), flt 0.1),
      ((cps ''mg/dL'', cps ''mg/L''), flt 10.0),
      ((cps ''mg/L'', cps ''mg/dL''), flt 0.1),
      ((cps ''umol/L'', cps ''mg/dL''), flt 0.0113),
      ((cps ''ng/mL'', cps ''ug/L''), flt 1.0),
      ((cps ''ug/L'', cps ''ng/mL''), flt 1.0),
      ((cps ''mEq/L'', cps ''mmol/L''), flt 1.0),
      ((cps ''mmol/L'', cps ''mEq/L''), flt 1.0)]"

text \<open>
  \<open>re.sub(r"\s+", "", x)\<close> deletes every white-space character of \<open>x\<close>.
  \<open>convert_value\<close> returns \<open>None\<close> when no conversion is known.
\<close>

definition normalize_unit :: "unicode_db \<Rightarrow> pystr \<Rightarrow> pystr" where
  "normalize_unit U raw =
     (let cleaned = py_lower U (filter (\<lambda>c. \<not> py_isspace U c) (py_strip U raw))
      in dict_get UNIT_ALIASES cleaned (py_strip U raw))"

definition convert_value :: "unicode_db \<Rightarrow> real \<Rightarrow> pystr \<Rightarrow> pystr \<Rightarrow> real option" where
  "convert_value U v from_unit to_unit =
     (let f = normalize_unit U from_unit;
          t = normalize_unit U to_unit
      in if f = t then Some v
         else (case map_of CONVERSIONS (f, t) of
                 None \<Rightarrow> None
               | Some factor \<Rightarrow> Some (fl_mul v factor)))"

section \<open>Reference-range parser (\<open>labx/domain/reference.py\<close>)\<close>

subsection \<open>The patterns\<close>

text \<open>
  \<open>NUM\<close> is \<open>[+-]?\d+(?:\.\d+)?\<close>.  The code points 8211 and 8212 are the en dash
  and the em dash, 8804 and 8805 the signs \<open>\<le>\<close> and \<open>\<ge>\<close>.

  \<open>RANGE_RE\<close> is \<open>(?P<lo>NUM)\s*(?:[-\<dots>]|to)\s*(?P<hi>NUM)\<close>, a match being the pair of
  its two groups; \<open>UPPER_ONLY_RE\<close> is \<open>(?:[<\<le>]\s*=?\s*)(?P<hi>NUM)\<close> and
  \<open>LOWER_ONLY_RE\<close> is \<open>(?:[>\<ge>]\s*=?\s*)(?P<lo>NUM)\<close>, a match being the group.

  \<open>QUALITATIVE_RE\<close> is
  \<open>(?i)^(negative|non[- ]?reactive|not detected|absent|normal)$\<close>; \<open>qualitative_match\<close>
  is \<open>_QUALITATIVE_RE.match(text)\<close> seen as a truth value: some way of matching the
  alternatives stops at the anchor \<open>$\<close>.
\<close>

definition NUM :: "unicode_db \<Rightarrow> pystr matcher" where
  "NUM U =
     m_seq (m_opt (m_class (\<lambda>c. c = 43 \<or> c = 45)))
       (m_seq (m_plus_class (py_isdecimal U))
          (m_opt (m_seq (m_lit (cps ''.'')) (m_plus_class (py_isdecimal U)))))"

definition RANGE_SEP :: "pystr matcher" where
  "RANGE_SEP = m_alt (m_class (\<lambda>c. c = 45 \<or> c = 8211 \<or> c = 8212)) (m_lit (cps ''to''))"

definition RANGE_RE :: "unicode_db \<Rightarrow> (pystr \<times> pystr) matcher" where
  "RANGE_RE U s =
     [((lo, hi), r5).
        (lo, r1) \<leftarrow> NUM U s,
        (ws1, r2) \<leftarrow> m_star_class (py_isspace U) r1,
        (sep, r3) \<leftarrow> RANGE_SEP r2,
        (ws2, r4) \<leftarrow> m_star_class (py_isspace U) r3,
        (hi, r5) \<leftarrow> NUM U r4]"

definition BOUND_PREFIX :: "unicode_db \<Rightarrow> (nat \<Rightarrow> bool) \<Rightarrow> pystr matcher" where
  "BOUND_PREFIX U P =
     m_seq (m_class P)
       (m_seq (m_star_class (py_isspace U))
          (m_seq (m_opt (m_lit (cps ''=''))) (m_star_class (py_isspace U))))"

definition UPPER_ONLY_RE :: "unicode_db \<Rightarrow> pystr matcher" where
  "UPPER_ONLY_RE U s =
     [(hi, r2).
        (pre, r1) \<leftarrow> BOUND_PREFIX U (\<lambda>c. c = 60 \<or> c = 8804) s,
        (hi, r2) \<leftarrow> NUM U r1]"

definition LOWER_ONLY_RE :: "unicode_db \<Rightarrow> pystr matcher" where
  "LOWER_ONLY_RE U s =
     [(lo, r2).
        (pre, r1) \<leftarrow> BOUND_PREFIX U (\<lambda>c. c = 62 \<or> c = 8805) s,
        (lo, r2) \<leftarrow> NUM U r1]"

definition QUALITATIVE_RE :: "unicode_db \<Rightarrow> pystr matcher" where
  "QUALITATIVE_RE U =
     m_alt (m_ilit U (cps ''negative''))
       (m_alt (m_seq (m_ilit U (cps ''non''))
                 (m_seq (m_opt (m_class (\<lambda>c. c = 45 \<or> c = 32))) (m_ilit U (cps ''reactive''))))
          (m_alt (m_ilit U (cps ''not detected''))
             (m_alt (m_ilit U (cps ''absent'')) (m_ilit U (cps ''normal'')))))"

definition qualitative_match :: "unicode_db \<Rightarrow> pystr \<Rightarrow> bool" where
  "qualitative_match U text = list_ex (\<lambda>(x, r). at_end r) (QUALITATIVE_RE U text)"

subsection \<open>\<open>parse_reference_range\<close>\<close>

text \<open>
  \<open>select_segment\<close> is the step on a semicolon: the first segment, and within it the
  text after a label that ends in a colon.  \<open>match_bounds\<close> is the cascade of the three
  searches, each group handed to \<open>float\<close>.  The indexing of the lists that \<open>split\<close>
  returns and the calls of \<open>float\<close> are the operations of the function that can raise.
\<close>

definition select_segment :: "unicode_db \<Rightarrow> pystr \<Rightarrow> py_exception + pystr" where
  "select_segment U text =
     (if 59 \<in> set text then
        and_then (py_index (py_split 59 text) 0) (\<lambda>seg.
          let text' = py_strip U seg in
          if 58 \<in> set text' then
            and_then (py_index (py_split_once 58 text') 1) (\<lambda>rest. Inr (py_strip U rest))
          else Inr text')
      else Inr text)"

definition match_bounds ::
    "unicode_db \<Rightarrow> pystr \<Rightarrow> pystr \<Rightarrow> py_exception + real ReferenceRange" where
  "match_bounds U text raw =
     (case re_search (RANGE_RE U) text of
        Some (lo, hi) \<Rightarrow>
          and_then (py_float U lo) (\<lambda>l.
          and_then (py_float U hi) (\<lambda>h.
            Inr \<lparr>low = Some l, high = Some h, raw_text = raw\<rparr>))
      | None \<Rightarrow>
          (case re_search (UPPER_ONLY_RE U) text of
             Some hi \<Rightarrow>
               and_then (py_float U hi) (\<lambda>h. Inr \<lparr>low = None, high = Some h, raw_text = raw\<rparr>)
           | None \<Rightarrow>
               (case re_search (LOWER_ONLY_RE U) text of
                  Some lo \<Rightarrow>
                    and_then (py_float U lo) (\<lambda>l.
                      Inr \<lparr>low = Some l, high = None, raw_text = raw\<rparr>)
                | None \<Rightarrow> Inr \<lparr>low = None, high = None, raw_text = raw\<rparr>)))"

definition parse_reference_range ::
    "unicode_db \<Rightarrow> pystr \<Rightarrow> py_exception + real ReferenceRange" where
  "parse_reference_range U raw =
     (let text = py_strip U raw in
      if text = [] then Inr \<lparr>low = None, high = None, raw_text = raw\<rparr>
      else if qualitative_match U text then Inr \<lparr>low = None, high = None, raw_text = raw\<rparr>
      else and_then (select_segment U text) (\<lambda>text'. match_bounds U text' raw))"

subsection \<open>A database that knows ASCII only\<close>

text \<open>
  \<open>ascii_db\<close> treats every code point beyond ASCII as a character that is no space, no
  digit, no word character, has no case and matches no pattern letter.  It serves to
  evaluate the functions on concrete ASCII input.
\<close>

definition ascii_db :: unicode_db where
  "ascii_db =
     \<lparr>u_isspace = (\<lambda>c. False), u_decimal = (\<lambda>c. None), u_isword = (\<lambda>c. False),
      u_lower = (\<lambda>s. map ascii_lower s), u_title = (\<lambda>s. s), u_imatch = (\<lambda>p c. False)\<rparr>"

section \<open>Post-processor (\<open>labx/pipeline/postprocess.py\<close>)\<close>

text \<open>
  \<open>ANALYTE_ALIASES\<close> is the dictionary \<open>_ANALYTE_ALIASES\<close> of the module, entry by entry;
  no key occurs twice.
\<close>

definition ANALYTE_ALIASES :: "(pystr \<times> pystr) list" where
  "ANALYTE_ALIASES =
     [(cps ''na'', cps ''sodium''),
      (cps ''na+'', cps ''sodium''),
      (cps ''sod'', cps ''sodium''),
      (cps ''sod.'', cps ''sodium''),
      (cps ''sodium'', cps ''sodium''),
      (cps ''k'', cps ''potassium''),
      (cps ''k+'', cps ''potassium''),
      (cps ''pot'', cps ''potassium''),
      (cps ''potassium'', cps ''potassium''),
      (cps ''cl'', cps ''chloride''),
      (cps ''cl-'', cps ''chloride''),
      (cps ''chloride'', cps ''chloride''),
      (cps ''co2'', cps ''bicarbonate''),
      (cps ''hco3'', cps ''bicarbonate''),
      (cps ''hco3-'', cps ''bicarbonate''),
      (cps ''tco2'', cps ''bicarbonate''),
      (cps ''bicarbonate'', cps ''bicarbonate''),
      (cps ''bicarb'', cps ''bicarbonate''),
      (cps ''ca'', cps ''calcium''),
      (cps ''ca++'', cps ''calcium''),
      (cps ''calcium'', cps ''calcium''),
      (cps ''ca total'', cps ''calcium''),
      (cps ''mg'', cps ''magnesium''),
      (cps ''mg++'', cps ''magnesium''),
      (cps ''magnesium'', cps ''magnesium''),
      (cps ''phos'', cps ''phosphate''),
      (cps ''po4'', cps ''phosphate''),
      (cps ''phosphorus'', cps ''phosphate''),
      (cps ''phosphate'', cps ''phosphate''),
      (cps ''bun'', cps ''bun''),
      (cps ''urea'', cps ''bun''),
      (cps ''urea nitrogen'', cps ''bun''),
      (cps ''cr'', cps ''creatinine''),
      (cps ''crea'', cps ''creatinine''),
      (cps ''creat'', cps ''creatinine''),
      (cps ''creatinine'', cps ''creatinine''),
      (cps ''egfr'', cps ''egfr''),
      (cps ''gfr'', cps ''egfr''),
      (cps ''glu'', cps ''glucose''),
      (cps ''glucose'', cps ''glucose''),
      (cps ''gluc'', cps ''glucose''),
      (cps ''blood sugar'', cps ''glucose''),
      (cps ''bs'', cps ''glucose''),
      (cps ''wbc'', cps ''white_blood_cells''),
      (cps ''white blood cells'', cps ''white_blood_cells''),
      (cps ''white blood cell count'', cps ''white_blood_cells''),
      (cps ''rbc'', cps ''red_blood_cells''),
      (cps ''red blood cells'', cps ''red_blood_cells''),
      (cps ''hgb'', cps ''hemoglobin''),
      (cps ''hb'', cps ''hemoglobin''),
      (cps ''hemoglobin'', cps ''hemoglobin''),
      (cps ''haemoglobin'', cps ''hemoglobin''),
      (cps ''hct'', cps ''hematocrit''),
      (cps ''hematocrit'', cps ''hematocrit''),
      (cps ''haematocrit'', cps ''hematocrit''),
      (cps ''plt'', cps ''platelets''),
      (cps ''platelets'', cps ''platelets''),
      (cps ''platelet count'', cps ''platelets''),
      (cps ''mcv'', cps ''mcv''),
      (cps ''mch'', cps ''mch''),
      (cps ''mchc'', cps ''mchc''),
      (cps ''rdw'', cps ''rdw''),
      (cps ''mpv'', cps ''mpv''),
      (cps ''neut'', cps ''neutrophils''),
      (cps ''neutrophils'', cps ''neutrophils''),
      (cps ''neutrophil'', cps ''neutrophils''),
      (cps ''neut%'', cps ''neutrophils_pct''),
      (cps ''lymph'', cps ''lymphocytes''),
      (cps ''lymphocytes'', cps ''lymphocytes''),
      (cps ''lymph%'', cps ''lymphocytes_pct''),
      (cps ''mono'', cps ''monocytes''),
      (cps ''monocytes'', cps ''monocytes''),
      (cps ''eos'', cps ''eosinophils''),
      (cps ''eosinophils'', cps ''eosinophils''),
      (cps ''baso'', cps ''basophils''),
      (cps ''basophils'', cps ''basophils''),
      (cps ''alt'', cps ''alt''),
      (cps ''sgpt'', cps ''alt''),
      (cps ''ast'', cps ''ast''),
      (cps ''sgot'', cps ''ast''),
      (cps ''alp'', cps ''alp''),
      (cps ''alkaline phosphatase'', cps ''alp''),
      (cps ''alk phos'', cps ''alp''),
      (cps ''ggt'', cps ''ggt''),
      (cps ''gamma gt'', cps ''ggt''),
      (cps ''tbil'', cps ''total_bilirubin''),
      (cps ''total bilirubin'', cps ''total_bilirubin''),
      (cps ''t. bilirubin'', cps ''total_bilirubin''),
      (cps ''bilirubin total'', cps ''total_bilirubin''),
      (cps ''dbil'', cps ''direct_bilirubin''),
      (cps ''direct bilirubin'', cps ''direct_bilirubin''),
      (cps ''d. bilirubin'', cps ''direct_bilirubin''),
      (cps ''albumin'', cps ''albumin''),
      (cps ''alb'', cps ''albumin''),
      (cps ''total protein'', cps ''total_protein''),
      (cps ''tp'', cps ''total_protein''),
      (cps ''pt'', cps ''pt''),
      (cps ''prothrombin time'', cps ''pt''),
      (cps ''inr'', cps ''inr''),
      (cps ''aptt'', cps ''aptt''),
      (cps ''ptt'', cps ''aptt''),
      (cps ''troponin i'', cps ''troponin_i''),
      (cps ''tni'', cps ''troponin_i''),
      (cps ''hs-tni'', cps ''troponin_i''),
      (cps ''troponin t'', cps ''troponin_t''),
      (cps ''tnt'', cps ''troponin_t''),
      (cps ''hs-tnt'', cps ''troponin_t''),
      (cps ''bnp'', cps ''bnp''),
      (cps ''nt-probnp'', cps ''nt_probnp''),
      (cps ''pro-bnp'', cps ''nt_probnp''),
      (cps ''ck'', cps ''ck''),
      (cps ''cpk'', cps ''ck''),
      (cps ''ck-mb'', cps ''ck_mb''),
      (cps ''ldh'', cps ''ldh''),
      (cps ''tsh'', cps ''tsh''),
      (cps ''ft4'', cps ''free_t4''),
      (cps ''free t4'', cps ''free_t4''),
      (cps ''ft3'', cps ''free_t3''),
      (cps ''free t3'', cps ''free_t3''),
      (cps ''t4'', cps ''total_t4''),
      (cps ''t3'', cps ''total_t3''),
      (cps ''iron'', cps ''iron''),
      (cps ''fe'', cps ''iron''),
      (cps ''ferritin'', cps ''ferritin''),
      (cps ''tibc'', cps ''tibc''),
      (cps ''transferrin sat'', cps ''transferrin_saturation''),
      (cps ''crp'', cps ''crp''),
      (cps ''c-reactive protein'', cps ''crp''),
      (cps ''esr'', cps ''esr''),
      (cps ''sed rate'', cps ''esr''),
      (cps ''procalcitonin'', cps ''procalcitonin''),
      (cps ''pct'', cps ''procalcitonin''),
      (cps ''hba1c'', cps ''hba1c''),
      (cps ''a1c'', cps ''hba1c''),
      (cps ''glycated hemoglobin'', cps ''hba1c''),
      (cps ''total cholesterol'', cps ''total_cholesterol''),
      (cps ''chol'', cps ''total_cholesterol''),
      (cps ''ldl'', cps ''ldl''),
      (cps ''ldl-c'', cps ''ldl''),
      (cps ''hdl'', cps ''hdl''),
      (cps ''hdl-c'', cps ''hdl''),
      (cps ''triglycerides'', cps ''triglycerides''),
      (cps ''trig'', cps ''triglycerides''),
      (cps ''tg'', cps ''triglycerides''),
      (cps ''ph'', cps ''ph''),
      (cps ''pco2'', cps ''pco2''),
      (cps ''po2'', cps ''po2''),
      (cps ''pao2'', cps ''po2''),
      (cps ''sao2'', cps ''sao2''),
      (cps ''lactate'', cps ''lactate''),
      (cps ''urine protein'', cps ''urine_protein''),
      (cps ''urine glucose'', cps ''urine_glucose''),
      (cps ''urine ph'', cps ''urine_ph''),
      (cps ''specific gravity'', cps ''specific_gravity'')]"

text \<open>
  \<open>collapse_spaces U s\<close> is \<open>re.sub(r"\s+", "_", s)\<close>: every maximal run of white space
  becomes one underscore (\<open>collapse_from\<close> remembers whether it is inside a run).  \<open>py_replace_char a b s\<close> is \<open>s.replace(a, b)\<close> for strings of
  one character.  \<open>py_title\<close> is \<open>str.title\<close>: on ASCII a letter that follows a letter
  is put in lower case and any other letter in upper case.
\<close>

fun collapse_from :: "unicode_db \<Rightarrow> bool \<Rightarrow> pystr \<Rightarrow> pystr" where
  "collapse_from U in_run [] = []"
| "collapse_from U in_run (c # s) =
     (if py_isspace U c then
        (if in_run then collapse_from U True s else 95 # collapse_from U True s)
      else c # collapse_from U False s)"

definition collapse_spaces :: "unicode_db \<Rightarrow> pystr \<Rightarrow> pystr" where
  "collapse_spaces U s = collapse_from U False s"

definition py_replace_char :: "nat \<Rightarrow> nat \<Rightarrow> pystr \<Rightarrow> pystr" where
  "py_replace_char a b s = map (\<lambda>c. if c = a then b else c) s"

fun ascii_title :: "bool \<Rightarrow> pystr \<Rightarrow> pystr" where
  "ascii_title prev_cased [] = []"
| "ascii_title prev_cased (c # s) =
     (if ascii_isupper c \<or> ascii_islower c then
        (if prev_cased then ascii_lower c else ascii_upper c) # ascii_title True s
      else c # ascii_title False s)"

definition py_title :: "unicode_db \<Rightarrow> pystr \<Rightarrow> pystr" where
  "py_title U s = (if list_all is_ascii s then ascii_title False s else u_title U s)"

definition normalize_analyte_key :: "unicode_db \<Rightarrow> pystr \<Rightarrow> pystr" where
  "normalize_analyte_key U raw_name_v =
     (let kept = filter (\<lambda>c. re_word U c \<or> py_isspace U c \<or> c = 46 \<or> c = 43 \<or> c = 45)
                        (py_strip U raw_name_v);
          cleaned = py_strip U (py_lower U kept)
      in case map_of ANALYTE_ALIASES cleaned of
           Some k \<Rightarrow> k
         | None \<Rightarrow>
             (let stripped = py_rstrip_chars (cps ''. '') cleaned
              in case map_of ANALYTE_ALIASES stripped of
                   Some k \<Rightarrow> k
                 | None \<Rightarrow> collapse_spaces U cleaned))"

definition make_display_name :: "unicode_db \<Rightarrow> pystr \<Rightarrow> pystr" where
  "make_display_name U key = py_title U (py_replace_char 95 32 key)"

text \<open>
  \<open>normalize_analyte\<close> is \<open>_normalize_analyte\<close>.  The Python mutates the analyte in place;
  the model returns the new analyte.  Its steps run in the order of the source, each on
  the analyte that the steps before it left.  The only call that can raise is the
  parser, so the result is a sum.  The logging of flag discrepancies has no effect on
  the result and is left out.
\<close>

definition recompute_flags :: "real LabAnalyte \<Rightarrow> real LabAnalyte" where
  "recompute_flags analyte =
     analyte\<lparr>observations :=
       map (\<lambda>obs. obs\<lparr>flag_computed :=
              Some (compute_flag (obs_value obs) (ref_range analyte) (analyte_key analyte))\<rparr>)
           (observations analyte)\<rparr>"

definition normalize_analyte ::
    "unicode_db \<Rightarrow> real LabAnalyte \<Rightarrow> py_exception + real LabAnalyte" where
  "normalize_analyte U analyte =
     (let a1 = (if analyte_key analyte = [] \<or> analyte_key analyte = raw_name analyte
                then analyte\<lparr>analyte_key := normalize_analyte_key U (raw_name analyte)\<rparr>
                else analyte);
          a2 = (if display_name a1 = []
                then a1\<lparr>display_name := make_display_name U (analyte_key a1)\<rparr>
                else a1);
          a3 = (if unit a2 \<noteq> [] \<and> unit_canonical a2 = []
                then a2\<lparr>unit_canonical := normalize_unit U (unit a2)\<rparr>
                else a2)
      in and_then
           (if raw_range_text a3 \<noteq> [] \<and> \<not> is_bounded (ref_range a3)
            then and_then (parse_reference_range U (raw_range_text a3))
                   (\<lambda>r. Inr (a3\<lparr>ref_range := r\<rparr>))
            else Inr a3)
           (\<lambda>a4. Inr (recompute_flags a4)))"

text \<open>\<open>map_result f xs\<close> runs \<open>f\<close> over \<open>xs\<close> in order and stops at the first exception.\<close>

fun map_result :: "('a \<Rightarrow> 'e + 'b) \<Rightarrow> 'a list \<Rightarrow> 'e + 'b list" where
  "map_result f [] = Inr []"
| "map_result f (x # xs) =
     and_then (f x) (\<lambda>y. and_then (map_result f xs) (\<lambda>ys. Inr (y # ys)))"

definition postprocess_panel ::
    "unicode_db \<Rightarrow> real LabPanel \<Rightarrow> py_exception + real LabPanel" where
  "postprocess_panel U panel =
     and_then (map_result (normalize_analyte U) (results panel))
       (\<lambda>rs. Inr (panel\<lparr>results := rs\<rparr>))"

definition postprocess_report ::
    "unicode_db \<Rightarrow> real LabReport \<Rightarrow> py_exception + real LabReport" where
  "postprocess_report U report =
     and_then (map_result (postprocess_panel U) (panels report))
       (\<lambda>ps. Inr (report\<lparr>panels := ps\<rparr>))"

definition postprocess_reports ::
    "unicode_db \<Rightarrow> real LabReport list \<Rightarrow> py_exception + real LabReport list" where
  "postprocess_reports U reports = map_result (postprocess_report U) reports"

subsection \<open>Fixture of \<open>tests/test_pipeline_smoke.py\<close>\<close>

text \<open>
  \<open>smoke_sodium\<close> is the sodium analyte that the mock extractor of the smoke test
  returns: value 148, range text \<open>"136 - 145"\<close>, flag \<open>high\<close> as extracted.
\<close>

definition smoke_sodium :: "real LabAnalyte" where
  "smoke_sodium =
     \<lparr>raw_name = cps ''Sodium'', raw_unit = cps ''mmol/L'', raw_range_text = cps ''136 - 145'',
      analyte_key = cps ''sodium'', display_name = cps ''Sodium'', unit = cps ''mmol/L'',
      unit_canonical = cps ''mmol/L'', ref_range = ReferenceRange_init,
      observations = [(Observation_init 738886 148.0)\<lparr>raw_value := cps ''148'',
                         flag_extracted := Some Flag_high\<rparr>]\<rparr>"

section \<open>Image ingestion (\<open>labx/pipeline/image_io.py\<close>)\<close>

text \<open>
  A file is a list of bytes, a path is a string.  The file system and the library
  functions that \<open>load_image\<close> calls are not part of the repository; they are the
  parameter \<open>env\<close>:
  \<open>is_file\<close> and \<open>read_bytes\<close> of \<open>pathlib.Path\<close> (\<open>None\<close> when reading fails),
  \<open>path_name\<close> for \<open>path.name\<close>, \<open>guess_type\<close> for the first component of
  \<open>mimetypes.guess_type\<close>, and the SHA-256 and base64 encoders.
\<close>

type_synonym bytes = "nat list"

record io_env =
  is_file :: "pystr \<Rightarrow> bool"
  read_bytes :: "pystr \<Rightarrow> bytes option"
  path_name :: "pystr \<Rightarrow> pystr"
  guess_type :: "pystr \<Rightarrow> pystr option"
  sha256_hexdigest :: "bytes \<Rightarrow> pystr"
  b64encode :: "bytes \<Rightarrow> pystr"

record PreparedImage =
  image_id :: pystr
  media_type :: pystr
  base64_data :: pystr
  file_name :: pystr

definition SUPPORTED_MIME_TYPES :: "pystr list" where
  "SUPPORTED_MIME_TYPES =
     [cps ''image/jpeg'', cps ''image/png'', cps ''image/webp'', cps ''image/gif'']"

definition MAGIC :: "(bytes \<times> pystr) list" where
  "MAGIC =
     [([255, 216, 255], cps ''image/jpeg''),
      ([137, 80, 78, 71, 13, 10, 26, 10], cps ''image/png''),
      (cps ''RIFF'', cps ''image/webp''),
      (cps ''GIF87a'', cps ''image/gif''),
      (cps ''GIF89a'', cps ''image/gif'')]"

fun sniff_loop :: "(bytes \<times> pystr) list \<Rightarrow> bytes \<Rightarrow> pystr option" where
  "sniff_loop [] data = None"
| "sniff_loop ((magic, mime) # rest) data =
     (if take (length magic) data = magic then
        (if mime = cps ''image/webp'' \<and> take 4 (drop 8 data) \<noteq> cps ''WEBP''
         then sniff_loop rest data
         else Some mime)
      else sniff_loop rest data)"

definition sniff_mime :: "bytes \<Rightarrow> pystr option" where
  "sniff_mime data = sniff_loop MAGIC data"

definition load_image :: "io_env \<Rightarrow> pystr \<Rightarrow> real \<Rightarrow> py_exception + PreparedImage" where
  "load_image env path max_mb =
     (if \<not> is_file env path then Inl (ImageValidationError (FileNotFound path))
      else
        case read_bytes env path of
          None \<Rightarrow> Inl OSError
        | Some data \<Rightarrow>
            (let size_mb = fl_div (real (length data)) (1024 * 1024) in
             if size_mb > max_mb then
               Inl (ImageValidationError (ImageTooLarge (path_name env path) size_mb max_mb))
             else
               let mime = (case sniff_mime data of
                             None \<Rightarrow> guess_type env path
                           | Some m \<Rightarrow> Some m)
               in case mime of
                    None \<Rightarrow>
                      Inl (ImageValidationError (UnsupportedImageType None (path_name env path)))
                  | Some m \<Rightarrow>
                      if m \<notin> set SUPPORTED_MIME_TYPES then
                        Inl (ImageValidationError
                               (UnsupportedImageType (Some m) (path_name env path)))
                      else
                        Inr \<lparr>image_id = sha256_hexdigest env data, media_type = m,
                             base64_data = b64encode env data,
                             file_name = path_name env path\<rparr>))"

definition load_images ::
    "io_env \<Rightarrow> pystr list \<Rightarrow> int \<Rightarrow> real \<Rightarrow> py_exception + PreparedImage list" where
  "load_images env paths max_images_v max_mb =
     (if int (length paths) > max_images_v then
        Inl (ImageValidationError (TooManyImages (length paths) max_images_v))
      else if paths = [] then Inl (ImageValidationError NoImagesProvided)
      else map_result (\<lambda>p. load_image env p max_mb) paths)"

section \<open>Pipeline orchestrator (\<open>labx/pipeline/orchestrator.py\<close>)\<close>

text \<open>
  \<open>Settings\<close> holds the fields that the orchestrator reads, with the defaults of
  \<open>labx/config/settings.py\<close> in \<open>Settings_init\<close>; the other fields live in the extension
  slot of the record.

  The extractor and the summarizer are the two collaborators of the pipeline: each is
  a function that returns a value or an exception.  The three conversions to text that
  the merge engine uses are the parameter \<open>F\<close>, as in the section on merging.
\<close>

record Settings =
  concurrency :: int
  max_images :: int
  max_image_mb :: real
  enable_summary :: bool

definition Settings_init :: Settings where
  "Settings_init =
     \<lparr>concurrency = 4, max_images = 10, max_image_mb = flt 12.0, enable_summary = True\<rparr>"

record AnalysisReport =
  reports :: "real LabReport list"
  merged_timeline :: "real LabAnalyte list"
  trends :: "LabTrend list"
  critical_flags :: "LabTrend list"
  summary :: pystr

type_synonym extractor_t = "PreparedImage \<Rightarrow> py_exception + real LabReport"
type_synonym summarizer_t = "AnalysisReport \<Rightarrow> py_exception + pystr"

subsection \<open>Bounded concurrency (\<open>labx/pipeline/concurrency.py\<close>)\<close>

text \<open>
  \<open>run_concurrently\<close> receives the outcomes of its tasks in task order, and the bound
  \<open>max_concurrent\<close>.  \<open>asyncio.Semaphore\<close> raises \<open>ValueError\<close> for a negative bound, before
  any task is started.  With the bound 0 no task ever acquires the semaphore: when there
  is a task, \<open>gather\<close> never completes and the call does not return, which is the result
  \<open>None\<close>.  Otherwise every task runs to its outcome, and \<open>first_exception\<close> is the
  loop over the gathered outcomes: it returns every result in task order, or raises the
  first exception in that order.  The interleaving of the tasks is outside the model.
\<close>

fun first_exception :: "('e + 'a) list \<Rightarrow> 'e + 'a list" where
  "first_exception [] = Inr []"
| "first_exception (Inl e # tasks) = Inl e"
| "first_exception (Inr x # tasks) =
     (case first_exception tasks of Inl e \<Rightarrow> Inl e | Inr xs \<Rightarrow> Inr (x # xs))"

definition run_concurrently ::
    "(py_exception + 'a) list \<Rightarrow> int \<Rightarrow> (py_exception + 'a list) option" where
  "run_concurrently tasks max_concurrent =
     (if max_concurrent < 0 then Some (Inl ValueError)
      else if max_concurrent = 0 \<and> tasks \<noteq> [] then None
      else Some (first_exception tasks))"

subsection \<open>The entry points\<close>

text \<open>
  The entry points are coroutines; their result is \<open>None\<close> when the call does not return.
  \<open>then_await\<close> continues with the value of a step that returned one, and passes on an
  exception or a call that does not return.
\<close>

definition then_await ::
    "(py_exception + 'a) option \<Rightarrow> ('a \<Rightarrow> (py_exception + 'b) option)
       \<Rightarrow> (py_exception + 'b) option" where
  "then_await r f =
     (case r of None \<Rightarrow> None | Some (Inl e) \<Rightarrow> Some (Inl e) | Some (Inr x) \<Rightarrow> f x)"

definition extract_all ::
    "extractor_t \<Rightarrow> PreparedImage list \<Rightarrow> int
       \<Rightarrow> (py_exception + real LabReport list) option" where
  "extract_all extractor images concurrency_v =
     run_concurrently (map extractor images) concurrency_v"

definition run_extract_only ::
    "io_env \<Rightarrow> unicode_db \<Rightarrow> 'a Settings_scheme \<Rightarrow> extractor_t \<Rightarrow> pystr list
       \<Rightarrow> (py_exception + real LabReport list) option" where
  "run_extract_only env U s extractor image_paths =
     then_await (Some (load_images env image_paths (max_images s) (max_image_mb s))) (\<lambda>images.
     then_await (extract_all extractor images (concurrency s)) (\<lambda>reports_v.
       Some (postprocess_reports U reports_v)))"

definition run_full_pipeline ::
    "io_env \<Rightarrow> unicode_db \<Rightarrow> real formatter \<Rightarrow> 'a Settings_scheme \<Rightarrow> extractor_t
       \<Rightarrow> summarizer_t \<Rightarrow> bool option \<Rightarrow> pystr list
       \<Rightarrow> (py_exception + AnalysisReport) option" where
  "run_full_pipeline env U F s extractor summarizer enable_summary_arg image_paths =
     (let enable = (case enable_summary_arg of None \<Rightarrow> enable_summary s | Some b \<Rightarrow> b) in
      then_await (Some (load_images env image_paths (max_images s) (max_image_mb s))) (\<lambda>images.
      then_await (extract_all extractor images (concurrency s)) (\<lambda>extracted.
      then_await (Some (postprocess_reports U extracted)) (\<lambda>reports_v.
        let merged = merge_reports F reports_v;
            trends_v = sort_trends_by_severity (map compute_trend merged);
            critical = filter (\<lambda>t. latest_flag t = Some Flag_critical_high
                                    \<or> latest_flag t = Some Flag_critical_low) trends_v;
            analysis = \<lparr>reports = reports_v, merged_timeline = merged, trends = trends_v,
                        critical_flags = critical, summary = []\<rparr>
        in if enable then
             then_await (Some (summarizer analysis))
               (\<lambda>text_v. Some (Inr (analysis\<lparr>summary := text_v\<rparr>)))
           else Some (Inr analysis)))))"

subsection \<open>Fixtures for evaluation\<close>

text \<open>
  \<open>no_files\<close> is a file system without files, \<open>failing_extractor\<close> an extractor that
  always raises, \<open>no_summary\<close> a summarizer that returns the empty string.
\<close>

definition no_files :: io_env where
  "no_files =
     \<lparr>is_file = (\<lambda>p. False), read_bytes = (\<lambda>p. None), path_name = (\<lambda>p. p),
      guess_type = (\<lambda>p. None), sha256_hexdigest = (\<lambda>d. []), b64encode = (\<lambda>d. [])\<rparr>"

definition failing_extractor :: extractor_t where
  "failing_extractor img = Inl (ProviderError (image_id img))"

definition no_summary :: summarizer_t where
  "no_summary analysis = Inr []"
section \<open>Properties of the floating-point arithmetic\<close>

text \<open>
  Rounding to an integer stays within one half, and rounding to a double keeps the
  sign.  Every double is a multiple of \<open>2 powi (- 1074)\<close>, the smallest positive double,
  so two different doubles are at least that far apart and their rounded difference is
  not zero: the sign of \<open>fl_sub a b\<close> is the sign of \<open>a - b\<close>.  A number \<open>n * 2 powi j\<close>
  with \<open>|n| < 2 ^ 53\<close> and \<open>j\<close> not below \<open>- 1074\<close> is a double.
\<close>

lemma round_half_even_near: "\<bar>of_int (round_half_even x) - x\<bar> \<le> 1/2"
  unfolding round_half_even_def Let_def by (auto; linarith)

lemma round_half_even_of_int: "round_half_even (of_int n) = n"
  by (simp add: round_half_even_def)

lemma round_half_even_nonneg: "0 \<le> x \<Longrightarrow> 0 \<le> round_half_even x"
  unfolding round_half_even_def Let_def by (auto; linarith?)

lemma round_half_even_nonpos: "x \<le> 0 \<Longrightarrow> round_half_even x \<le> 0"
proof -
  assume x: "x \<le> 0"
  have "\<lfloor>x\<rfloor> \<le> 0" using x by linarith
  moreover have "\<lfloor>x\<rfloor> \<le> -1" if "x - of_int \<lfloor>x\<rfloor> \<ge> 1/2"
    using x that by linarith
  ultimately show ?thesis
    unfolding round_half_even_def Let_def by (auto simp: not_less)
qed

lemma round_half_even_ge1: "1 \<le> x \<Longrightarrow> 1 \<le> round_half_even x"
proof -
  assume x: "1 \<le> x"
  have "1 \<le> \<lfloor>x\<rfloor>" using x by linarith
  then show ?thesis
    unfolding round_half_even_def Let_def by auto
qed

lemma round_half_even_le_m1: "x \<le> -1 \<Longrightarrow> round_half_even x \<le> -1"
proof -
  assume x: "x \<le> -1"
  have "\<lfloor>x\<rfloor> \<le> -1" using x by linarith
  moreover have "\<lfloor>x\<rfloor> \<le> -2" if "x - of_int \<lfloor>x\<rfloor> \<ge> 1/2"
    using x that by linarith
  ultimately show ?thesis
    unfolding round_half_even_def Let_def by (auto simp: not_less)
qed

lemma ulp_pos: "0 < ulp x"
  by (simp add: ulp_def)

lemma rnd64_0: "rnd64 0 = 0"
  by (simp add: rnd64_def)

lemma flt_zero: "flt 0 = 0"
  by (simp add: flt_def rnd64_0)

lemma rnd64_nonneg: "0 \<le> x \<Longrightarrow> 0 \<le> rnd64 x"
  using round_half_even_nonneg [of "x / ulp x"] ulp_pos [of x]
  by (simp add: rnd64_def)

lemma rnd64_nonpos: "x \<le> 0 \<Longrightarrow> rnd64 x \<le> 0"
  using round_half_even_nonpos [of "x / ulp x"] ulp_pos [of x]
  by (simp add: rnd64_def mult_le_0_iff divide_le_0_iff)

lemma expo_minus: "expo (- x) = expo x"
  by (simp add: expo_def)

lemma expo_le: 
  assumes "x \<noteq> 0" shows "2 powi expo x \<le> \<bar>x\<bar>"
proof (cases "1 \<le> \<bar>x\<bar>")
  case True
  define n where "n = \<lfloor>\<bar>x\<bar>\<rfloor>"
  have n: "0 < n" using True unfolding n_def by linarith
  have e: "expo x = bitlen n - 1" using True by (simp add: expo_def n_def)
  have "0 \<le> bitlen n - 1"
    using n bitlen_nonneg [of n] bitlen_eq_zero_iff [of n] by linarith
  then have "(2::real) powi (bitlen n - 1) = 2 ^ nat (bitlen n - 1)"
    by (simp add: power_int_def)
  also have "\<dots> = of_int (2 ^ nat (bitlen n - 1))" by simp
  also have "\<dots> \<le> of_int n"
    using bitlen_bounds [OF n] by (intro of_int_le_iff [THEN iffD2]) simp
  also have "\<dots> \<le> \<bar>x\<bar>" unfolding n_def by linarith
  finally show ?thesis by (simp add: e)
next
  case False
  define m where "m = \<lceil>1 / \<bar>x\<bar>\<rceil> - 1"
  have ax: "0 < \<bar>x\<bar>" "\<bar>x\<bar> < 1" using assms False by auto
  then have "1 < 1 / \<bar>x\<bar>" by simp
  then have m: "0 < m" unfolding m_def by linarith
  have e: "expo x = - bitlen m" using False by (simp add: expo_def m_def)
  have b: "0 \<le> bitlen m" by (simp add: bitlen_def)
  have "1 / \<bar>x\<bar> \<le> of_int (m + 1)" unfolding m_def by simp
  also have "\<dots> \<le> of_int (2 ^ nat (bitlen m))"
    using bitlen_bounds [OF m] by (intro of_int_le_iff [THEN iffD2]) simp
  also have "\<dots> = 2 powi (bitlen m)" using b by (simp add: power_int_def)
  finally have "1 / \<bar>x\<bar> \<le> 2 powi (bitlen m)" .
  then have "1 \<le> 2 powi (bitlen m) * \<bar>x\<bar>"
    using ax by (simp add: divide_le_eq)
  then have "2 powi (- bitlen m) \<le> \<bar>x\<bar>"
    by (simp add: power_int_minus divide_simps mult.commute)
  then show ?thesis by (simp add: e)
qed

lemma rnd64_pos:
  assumes "2 powi (- 1074) \<le> x" shows "0 < rnd64 x"
proof -
  have x: "0 < x" using assms by (smt (verit) zero_less_power_int)
  have "ulp x \<le> x"
  proof (cases "expo x \<le> - 1022")
    case True
    then have "ulp x = 2 powi (- 1074)" by (simp add: ulp_def max_def)
    with assms show ?thesis by simp
  next
    case False
    then have "ulp x = 2 powi (expo x - 52)" by (simp add: ulp_def max_def)
    also have "\<dots> \<le> 2 powi (expo x)" by (intro power_int_increasing) auto
    also have "\<dots> \<le> x" using expo_le [of x] x by simp
    finally show ?thesis .
  qed
  then have "1 \<le> x / ulp x" using ulp_pos [of x] by (simp add: le_divide_eq)
  then have "1 \<le> round_half_even (x / ulp x)" by (rule round_half_even_ge1)
  then have "0 < of_int (round_half_even (x / ulp x)) * ulp x"
    using ulp_pos [of x] by (intro mult_pos_pos) auto
  with x show ?thesis by (simp add: rnd64_def)
qed

lemma rnd64_neg:
  assumes "x \<le> - (2 powi (- 1074))" shows "rnd64 x < 0"
proof -
  have x: "x < 0" using assms by (smt (verit) zero_less_power_int)
  have "ulp x \<le> - x"
  proof (cases "expo x \<le> - 1022")
    case True
    then have "ulp x = 2 powi (- 1074)" by (simp add: ulp_def max_def)
    with assms show ?thesis by simp
  next
    case False
    then have "ulp x = 2 powi (expo x - 52)" by (simp add: ulp_def max_def)
    also have "\<dots> \<le> 2 powi (expo x)" by (intro power_int_increasing) auto
    also have "\<dots> \<le> - x" using expo_le [of x] x by simp
    finally show ?thesis .
  qed
  then have "x / ulp x \<le> - 1" using ulp_pos [of x] by (simp add: divide_le_eq)
  then have "round_half_even (x / ulp x) \<le> - 1" by (rule round_half_even_le_m1)
  then have "of_int (round_half_even (x / ulp x)) * ulp x < 0"
    using ulp_pos [of x] by (intro mult_neg_pos) auto
  with x show ?thesis by (simp add: rnd64_def)
qed

lemma double_grid:
  assumes "rnd64 x = x" shows "\<exists>k::int. x = of_int k * 2 powi (- 1074)"
proof (cases "x = 0")
  case True
  then show ?thesis by (intro exI [of _ 0]) simp
next
  case False
  define j where "j = max (expo x) (- 1022) - 52"
  define n where "n = round_half_even (x / ulp x)"
  have j: "0 \<le> j + 1074" by (simp add: j_def)
  have "ulp x = 2 powi (j + 1074 + (- 1074))" by (simp add: ulp_def j_def)
  also have "\<dots> = 2 powi (j + 1074) * 2 powi (- 1074)"
    by (subst power_int_add) auto
  also have "2 powi (j + 1074) = (2::real) ^ nat (j + 1074)"
    using j by (simp add: power_int_def)
  finally have u: "ulp x = 2 ^ nat (j + 1074) * 2 powi (- 1074)" .
  have "x = of_int n * ulp x" using assms False by (simp add: rnd64_def n_def)
  also have "\<dots> = of_int (n * 2 ^ nat (j + 1074)) * 2 powi (- 1074)"
    by (simp add: u)
  finally show ?thesis by blast
qed

lemma double_gap:
  assumes "rnd64 a = a" and "rnd64 b = b" and "b < a"
  shows "2 powi (- 1074) \<le> a - b"
proof -
  from double_grid [OF assms(1)] obtain ka :: int where a: "a = of_int ka * 2 powi (- 1074)" ..
  from double_grid [OF assms(2)] obtain kb :: int where b: "b = of_int kb * 2 powi (- 1074)" ..
  have p: "(0::real) < 2 powi (- 1074)" by simp
  have "of_int kb * (2::real) powi (- 1074) < of_int ka * 2 powi (- 1074)"
    using assms(3) a b by simp
  then have "(of_int kb :: real) < of_int ka"
    using p by (simp only: mult_less_cancel_right_pos)
  then have "kb + 1 \<le> ka" by simp
  then have "(of_int (kb + 1) :: real) \<le> of_int ka" by (simp only: of_int_le_iff)
  then have "of_int (kb + 1) * (2::real) powi (- 1074) \<le> of_int ka * 2 powi (- 1074)"
    using p by (simp only: mult_le_cancel_right_pos)
  then show ?thesis unfolding a b by (simp add: algebra_simps)
qed

lemma fl_sub_pos_iff:
  assumes "is_double a" and "is_double b"
  shows "(0 < fl_sub a b) = (b < a)"
proof
  assume "0 < fl_sub a b"
  then show "b < a"
    using rnd64_nonpos [of "a - b"] by (cases "b < a") (auto simp add: fl_sub_def)
next
  assume "b < a"
  then have "2 powi (- 1074) \<le> a - b"
    using assms by (intro double_gap) (auto simp add: is_double_def)
  then show "0 < fl_sub a b" unfolding fl_sub_def by (rule rnd64_pos)
qed

lemma fl_sub_neg_iff:
  assumes "is_double a" and "is_double b"
  shows "(fl_sub a b < 0) = (a < b)"
proof
  assume "fl_sub a b < 0"
  then show "a < b"
    using rnd64_nonneg [of "a - b"] by (cases "a < b") (auto simp add: fl_sub_def)
next
  assume "a < b"
  then have "2 powi (- 1074) \<le> b - a"
    using assms by (intro double_gap) (auto simp add: is_double_def)
  then have "a - b \<le> - (2 powi (- 1074))" by simp
  then show "fl_sub a b < 0" unfolding fl_sub_def by (rule rnd64_neg)
qed

lemma rnd64_exact:
  assumes x: "x = of_int n * 2 powi j" and n: "\<bar>n\<bar> < 2 ^ 53" and j: "- 1074 \<le> j"
  shows "rnd64 x = x"
proof (cases "x = 0")
  case True
  then show ?thesis by (simp add: rnd64_0)
next
  case False
  define u where "u = max (expo x) (- 1022) - 52"
  have "u \<le> j"
  proof (cases "- 1022 \<le> expo x")
    case True
    have "2 powi expo x \<le> \<bar>x\<bar>" using False by (rule expo_le)
    also have "\<bar>x\<bar> = of_int \<bar>n\<bar> * 2 powi j" by (simp add: x abs_mult)
    also have "\<dots> < of_int (2 ^ 53) * 2 powi j"
      using n by (intro mult_strict_right_mono of_int_less_iff [THEN iffD2]) auto
    also have "\<dots> = 2 powi (53 + j)" by (simp add: power_int_add)
    finally have lt: "(2::real) powi expo x < 2 powi (53 + j)" .
    have "expo x < 53 + j"
    proof (rule ccontr)
      assume "\<not> expo x < 53 + j"
      then have "(2::real) powi (53 + j) \<le> 2 powi expo x"
        by (intro power_int_increasing) auto
      with lt show False by simp
    qed
    with True show ?thesis by (simp add: u_def max_def)
  next
    case False
    with j show ?thesis by (simp add: u_def max_def)
  qed
  then obtain d where d: "j = u + int d"
    by (metis zle_iff_zadd)
  have ulp: "ulp x = 2 powi u" by (simp add: ulp_def u_def)
  have "x = of_int n * (2 powi u * 2 powi (int d))"
    unfolding x d by (simp add: power_int_add)
  then have xq: "x = of_int (n * 2 ^ d) * 2 powi u" by simp
  have "x / ulp x = of_int (n * 2 ^ d)"
    unfolding ulp by (subst xq) simp
  then have "round_half_even (x / ulp x) = n * 2 ^ d"
    by (simp only: round_half_even_of_int)
  then show ?thesis
    using False xq ulp by (simp add: rnd64_def)
qed

lemma is_double_of_int: "\<bar>n\<bar> < 2 ^ 53 \<Longrightarrow> is_double (of_int n)"
proof -
  assume n: "\<bar>n\<bar> < 2 ^ 53"
  have "rnd64 (of_int n) = of_int n"
    using rnd64_exact [of "of_int n" n 0] n by simp
  moreover have "\<bar>of_int n :: real\<bar> < 2 ^ 1024"
  proof -
    have "\<bar>of_int n :: real\<bar> = of_int \<bar>n\<bar>" by simp
    also have "\<dots> < of_int (2 ^ 53)" using n by (simp only: of_int_less_iff)
    also have "\<dots> \<le> 2 ^ 1024" by simp
    finally show ?thesis .
  qed
  ultimately show ?thesis by (simp add: is_double_def)
qed

lemma rnd64_of_int: "\<bar>n\<bar> < 2 ^ 53 \<Longrightarrow> rnd64 (of_int n) = of_int n"
  using rnd64_exact [of "of_int n" n 0] by simp


section \<open>Properties of the flag engine\<close>

lemma multiplier_for_sodium: "multiplier_for (cps ''sodium'') = flt 0.10"
  by (simp add: multiplier_for_def dict_get_def CRITICAL_MULTIPLIER_OVERRIDES_def cps_def)

lemma multiplier_for_troponin_i: "multiplier_for (cps ''troponin_i'') = flt 0.0"
  by (simp add: multiplier_for_def dict_get_def CRITICAL_MULTIPLIER_OVERRIDES_def cps_def)

lemma multiplier_for_default: "multiplier_for (cps '''') = flt 0.50"
  by (simp add: multiplier_for_def dict_get_def CRITICAL_MULTIPLIER_OVERRIDES_def cps_def
      DEFAULT_CRITICAL_MULTIPLIER_def)

lemma rnd64_5: "rnd64 5 = 5"
  using rnd64_of_int [of 5] by simp

lemma is_double_5: "is_double 5"
  using is_double_of_int [of 5] by simp

lemma lone_high_5_threshold: "fl_add 5 (fl_mul 5 (flt (1 / 2))) = 15 / 2"
  unfolding fl_add_def fl_mul_def flt_def by code_simp

text \<open>
  Claim C2 as stated: with a lone \<open>high\<close> bound every value above it is \<open>critical_high\<close>.
  For \<open>high = 5.0\<close> and no \<open>low\<close> the span is \<open>5.0 - 0.0 = 5.0 > 0\<close>, the threshold is 7.5
  and 5.5 is flagged \<open>high\<close> (the repository's \<open>test_upper_bound_only\<close> expects this).
\<close>

theorem C2_lone_high_has_soft_zone:
  "compute_flag 5.5 \<lparr>low = None, high = Some 5.0, raw_text = []\<rparr> (cps '''') = Flag_high"
  by (simp add: compute_flag_def is_bounded_def py_or_def multiplier_for_default flt_zero
      fl_sub_def rnd64_5 lone_high_5_threshold)

text \<open>
  Claim C2, amended: with only \<open>low\<close> set the span is 0 and every value strictly below
  \<open>low\<close> is \<open>critical_low\<close>, for every analyte key.  With only \<open>high\<close> set, a float, the
  span is \<open>high - 0.0 = high\<close>: a value strictly above \<open>high\<close> is \<open>critical_high\<close> when
  \<open>high \<le> 0\<close> or the value exceeds the threshold \<open>high + high * multiplier\<close>, computed in
  floating point, and \<open>high\<close> otherwise.
\<close>

theorem C2_single_sided:
  "(low ref = Some l \<and> high ref = None \<and> v < l
      \<longrightarrow> compute_flag v ref k = Flag_critical_low) \<and>
   (low ref = None \<and> high ref = Some h \<and> is_double h \<and> v > h
      \<longrightarrow> compute_flag v ref k =
            (if 0 < h \<and> v \<le> fl_add h (fl_mul h (multiplier_for k)) then Flag_high
             else Flag_critical_high))"
  by (auto simp add: compute_flag_def is_bounded_def py_or_def Let_def flt_zero fl_sub_def
      rnd64_0 is_double_def)

theorem C2_single_sided_witness:
  "compute_flag 0.5 \<lparr>low = Some 1.0, high = None, raw_text = []\<rparr> (cps ''potassium'')
     = Flag_critical_low \<and>
   compute_flag 8 \<lparr>low = None, high = Some 5.0, raw_text = []\<rparr> (cps '''')
     = Flag_critical_high \<and>
   compute_flag 5.5 \<lparr>low = None, high = Some 5.0, raw_text = []\<rparr> (cps '''')
     = Flag_high"
  using C2_single_sided [of "\<lparr>low = Some 1.0, high = None, raw_text = []\<rparr>" "1.0" "0.5"
          "cps ''potassium''" 0]
        C2_single_sided [of "\<lparr>low = None, high = Some 5.0, raw_text = []\<rparr>" 0 8
          "cps ''''" "5.0"]
        C2_single_sided [of "\<lparr>low = None, high = Some 5.0, raw_text = []\<rparr>" 0 "5.5"
          "cps ''''" "5.0"]
  by (simp add: multiplier_for_default is_double_5 lone_high_5_threshold)

text \<open>
  The threshold is the rounded one.  For a lone \<open>high\<close> of 0.9 the sum
  \<open>0.9 + 0.9 * 0.5\<close> rounds to the double 1.35, so the value 1.35 does not exceed it and
  is flagged \<open>high\<close>; for 0.3 the sum rounds to a double below the double 0.45 and the
  value 0.45 is \<open>critical_high\<close>.  With multiplier 0 (\<open>troponin_i\<close>) every value above a
  lone \<open>high\<close> is \<open>critical_high\<close>.
\<close>

lemma lone_high_rounded_threshold:
  "compute_flag (flt 1.35) \<lparr>low = None, high = Some (flt 0.9), raw_text = []\<rparr> (cps '''')
     = Flag_high \<and>
   compute_flag (flt 0.45) \<lparr>low = None, high = Some (flt 0.3), raw_text = []\<rparr> (cps '''')
     = Flag_critical_high"
  by code_simp

lemma lone_high_troponin:
  "compute_flag 5.5 \<lparr>low = None, high = Some 5.0, raw_text = []\<rparr> (cps ''troponin_i'')
     = Flag_critical_high"
  by (simp add: compute_flag_def is_bounded_def py_or_def multiplier_for_troponin_i flt_zero
      fl_sub_def fl_add_def fl_mul_def rnd64_5 rnd64_0)

text \<open>
  Claim C3 as stated: for every range with both bounds set, a value equal to \<open>low\<close> or
  to \<open>high\<close> is \<open>normal\<close>.  Bounds are stored in textual order (the parser reads
  \<open>"5 - 3"\<close> as \<open>low = 5, high = 3\<close>); for such a range the value 5 equals \<open>low\<close>, exceeds
  \<open>high\<close>, and is flagged \<open>critical_high\<close>.
\<close>

theorem C3_inverted_range_low_not_normal:
  "compute_flag 5 \<lparr>low = Some 5, high = Some 3, raw_text = cps ''5 - 3''\<rparr> (cps '''')
     = Flag_critical_high"
  using rnd64_nonpos [of "3 - 5"]
  by (simp add: compute_flag_def is_bounded_def py_or_def fl_sub_def)

text \<open>
  Claim C3, amended: for every range with one bound set, or with both bounds set and
  \<open>low \<le> high\<close>, and for every analyte key, a value exactly equal to \<open>low\<close> or exactly equal
  to \<open>high\<close> is flagged \<open>normal\<close>.
\<close>

theorem C3_boundary_inclusive:
  assumes "case (low ref, high ref) of (Some l, Some h) \<Rightarrow> l \<le> h | _ \<Rightarrow> True"
      and "low ref = Some v \<or> high ref = Some v"
    shows "compute_flag v ref k = Flag_normal"
  using assms
  by (cases "low ref"; cases "high ref")
     (auto simp add: compute_flag_def is_bounded_def Let_def)

theorem C3_boundary_inclusive_witness:
  "compute_flag 3.5 \<lparr>low = Some 3.5, high = Some 5.1, raw_text = []\<rparr> (cps ''potassium'')
     = Flag_normal \<and>
   compute_flag 5.1 \<lparr>low = Some 3.5, high = Some 5.1, raw_text = []\<rparr> (cps ''potassium'')
     = Flag_normal \<and>
   compute_flag 5.0 \<lparr>low = None, high = Some 5.0, raw_text = []\<rparr> (cps '''')
     = Flag_normal"
  using C3_boundary_inclusive
          [of "\<lparr>low = Some 3.5, high = Some 5.1, raw_text = []\<rparr>" "3.5" "cps ''potassium''"]
        C3_boundary_inclusive
          [of "\<lparr>low = Some 3.5, high = Some 5.1, raw_text = []\<rparr>" "5.1" "cps ''potassium''"]
        C3_boundary_inclusive
          [of "\<lparr>low = None, high = Some 5.0, raw_text = []\<rparr>" "5.0" "cps ''''"]
  by simp

section \<open>Properties of the severity scorer\<close>

lemma py_round_two_decimals:
  "py_round x 2 = rnd64 (of_int (round_half_even (x * 100)) / 100) \<and>
   \<bar>of_int (round_half_even (x * 100)) / 100 - x\<bar> \<le> 1/200"
proof -
  have e: "py_round x 2 = rnd64 (of_int (round_half_even (x * 100)) / 100)"
    by (simp add: py_round_def)
  have "\<bar>of_int (round_half_even (x * 100)) - x * 100\<bar> \<le> 1/2"
    by (rule round_half_even_near)
  then have "\<bar>of_int (round_half_even (x * 100)) / 100 - x\<bar> \<le> 1/200"
    by (simp add: abs_real_def field_simps split: if_splits)
  with e show ?thesis by simp
qed

lemma py_sorted_reverse_mset: "mset (py_sorted_reverse f xs) = mset xs"
  by (simp add: py_sorted_reverse_def)

lemma py_sorted_reverse_desc:
  "sorted_wrt (\<lambda>a b. f a \<ge> f b) (py_sorted_reverse f xs)"
proof -
  have "sorted (map f (sort_key f (rev xs)))" by (rule sorted_sort_key)
  then have "sorted_wrt (\<lambda>a b. f a \<le> f b) (sort_key f (rev xs))"
    by (simp add: sorted_wrt_map)
  then show ?thesis
    by (simp add: py_sorted_reverse_def sorted_wrt_rev)
qed

lemma py_sorted_reverse_stable:
  "filter (\<lambda>y. f y = k) (py_sorted_reverse f xs) = filter (\<lambda>y. f y = k) xs"
  by (simp add: py_sorted_reverse_def rev_filter [symmetric] sort_key_stable)

text \<open>The weights of the two tables are whole numbers, hence doubles.\<close>

lemma weight_literals:
  "flt 100 = 100" "flt 50 = 50" "flt 30 = 30" "flt 15 = 15" "flt 10 = 10" "flt 200 = 200"
  using rnd64_of_int [of 100] rnd64_of_int [of 50] rnd64_of_int [of 30] rnd64_of_int [of 15]
    rnd64_of_int [of 10] rnd64_of_int [of 200]
  by (simp_all add: flt_def)

lemma flag_weight_cases:
  "dict_get FLAG_WEIGHT (flag_or fl Flag_normal) (flt 0.0) = spec_flag_weight fl"
  by (cases fl rule: spec_flag_weight.cases)
     (simp_all add: dict_get_def FLAG_WEIGHT_def flag_or_def weight_literals flt_zero)

lemma direction_weight_cases:
  "dict_get DIRECTION_WEIGHT d (flt 0.0) = spec_direction_weight d"
  by (cases d) (simp_all add: dict_get_def DIRECTION_WEIGHT_def weight_literals flt_zero)

lemma compute_severity_sum:
  "compute_severity t =
     py_round (fl_add (fl_add (spec_flag_weight (latest_flag t))
                              (spec_direction_weight (direction t)))
                      (spec_magnitude_weight (pct_change t))) 2"
  unfolding compute_severity_def Let_def flag_weight_cases direction_weight_cases
    spec_magnitude_weight_def by (simp add: weight_literals)

text \<open>
  Claim C7: \<open>compute_severity\<close> is the sum of the flag weight (100 for either critical
  flag, 50 for high or low, 0 for normal or an absent flag), the direction weight (30
  worsening, 15 fluctuating, 0 stable, -10 improving) and the magnitude weight
  \<open>min(|pct_change|, 200) * 0.1\<close>, computed in floating point and rounded to two decimals:
  the result is the double nearest to a whole number of hundredths that lies within 0.005
  of the sum.  \<open>sort_trends_by_severity\<close> returns the trends with each \<open>severity_score\<close>
  overwritten by that value, in descending order of score, trends of equal score keeping
  their input order.
\<close>

theorem C7_severity:
  "compute_severity t =
     py_round (fl_add (fl_add (spec_flag_weight (latest_flag t))
                              (spec_direction_weight (direction t)))
                      (spec_magnitude_weight (pct_change t))) 2 \<and>
   (\<exists>n::int. compute_severity t = rnd64 (of_int n / 100) \<and>
      \<bar>of_int n / 100
        - fl_add (fl_add (spec_flag_weight (latest_flag t))
                         (spec_direction_weight (direction t)))
                 (spec_magnitude_weight (pct_change t))\<bar> \<le> 1/200) \<and>
   mset (sort_trends_by_severity ts)
     = mset (map (\<lambda>x. x\<lparr>severity_score := compute_severity x\<rparr>) ts) \<and>
   sorted_wrt (\<lambda>a b. severity_score a \<ge> severity_score b) (sort_trends_by_severity ts) \<and>
   (\<forall>s. filter (\<lambda>x. severity_score x = s) (sort_trends_by_severity ts)
          = filter (\<lambda>x. severity_score x = s)
              (map (\<lambda>x. x\<lparr>severity_score := compute_severity x\<rparr>) ts))"
proof -
  have a: "\<exists>n::int. compute_severity t = rnd64 (of_int n / 100) \<and>
      \<bar>of_int n / 100
        - fl_add (fl_add (spec_flag_weight (latest_flag t))
                         (spec_direction_weight (direction t)))
                 (spec_magnitude_weight (pct_change t))\<bar> \<le> 1/200"
    unfolding compute_severity_sum using py_round_two_decimals by blast
  have c: "mset (sort_trends_by_severity ts)
     = mset (map (\<lambda>x. x\<lparr>severity_score := compute_severity x\<rparr>) ts)"
    by (simp add: sort_trends_by_severity_def py_sorted_reverse_mset)
  have d: "sorted_wrt (\<lambda>a b. severity_score a \<ge> severity_score b)
             (sort_trends_by_severity ts)"
    by (simp add: sort_trends_by_severity_def py_sorted_reverse_desc)
  have e: "\<forall>s. filter (\<lambda>x. severity_score x = s) (sort_trends_by_severity ts)
          = filter (\<lambda>x. severity_score x = s)
              (map (\<lambda>x. x\<lparr>severity_score := compute_severity x\<rparr>) ts)"
    by (simp add: sort_trends_by_severity_def py_sorted_reverse_stable)
  from compute_severity_sum a c d e show ?thesis by blast
qed

text \<open>
  The product with 0.1 is the floating-point one.  For a stable trend with a normal
  flag and a change of 0.25 per cent the product of 0.25 and the double nearest to 0.1
  lies above 0.025, so the score is 0.03 and not 0.02.
\<close>

lemma severity_of_quarter_percent:
  "compute_severity
     \<lparr>trend_analyte_key = cps ''sodium'', trend_display_name = [], direction = stable,
      pct_change = 0.25, latest_value = None, latest_flag = Some Flag_normal,
      severity_score = 0, trend_observations = []\<rparr> = flt 0.03"
  unfolding compute_severity_sum by code_simp


section \<open>Properties of the trend engine\<close>


text \<open>
  The differences of neighbours are floating-point differences; between doubles they
  have the sign of the exact difference.
\<close>

lemma decreasing_step:
  assumes "sorted_wrt (\<lambda>x y. x > y) (map obs_value obs)"
      and "\<forall>ob \<in> set obs. is_double (obs_value ob)" and "i \<in> set [1 ..< length obs]"
  shows "fl_sub (obs_value (obs ! i)) (obs_value (obs ! (i - 1))) < 0"
proof -
  from assms(3) have i: "i - 1 < i" "i < length obs" by auto
  with assms(1) have "map obs_value obs ! (i - 1) > map obs_value obs ! i"
    by (intro sorted_wrt_nth_less) auto
  with i have "obs_value (obs ! i) < obs_value (obs ! (i - 1))" by simp
  moreover from i assms(2) have "is_double (obs_value (obs ! i))"
      and "is_double (obs_value (obs ! (i - 1)))" by auto
  ultimately show ?thesis by (simp add: fl_sub_neg_iff)
qed

lemma increasing_step:
  assumes "sorted_wrt (\<lambda>x y. x < y) (map obs_value obs)"
      and "\<forall>ob \<in> set obs. is_double (obs_value ob)" and "i \<in> set [1 ..< length obs]"
  shows "fl_sub (obs_value (obs ! i)) (obs_value (obs ! (i - 1))) > 0"
proof -
  from assms(3) have i: "i - 1 < i" "i < length obs" by auto
  with assms(1) have "map obs_value obs ! (i - 1) < map obs_value obs ! i"
    by (intro sorted_wrt_nth_less) auto
  with i have "obs_value (obs ! (i - 1)) < obs_value (obs ! i)" by simp
  moreover from i assms(2) have "is_double (obs_value (obs ! i))"
      and "is_double (obs_value (obs ! (i - 1)))" by auto
  ultimately show ?thesis by (simp add: fl_sub_pos_iff)
qed

lemma fold_fluct_all_negative:
  assumes "\<forall>i \<in> set js. fl_sub (obs_value (obs ! i)) (obs_value (obs ! (i - 1))) < 0"
      and "p = 0 \<or> p = -1"
  shows "fst (fold (fluct_step obs) js (r, p)) = r"
  using assms
proof (induction js arbitrary: p)
  case Nil
  then show ?case by simp
next
  case (Cons j js)
  then have "fluct_step obs j (r, p) = (r, -1)"
    by (auto simp add: fluct_step_def Let_def)
  with Cons show ?case by simp
qed

lemma fold_fluct_all_positive:
  assumes "\<forall>i \<in> set js. fl_sub (obs_value (obs ! i)) (obs_value (obs ! (i - 1))) > 0"
      and "p = 0 \<or> p = 1"
  shows "fst (fold (fluct_step obs) js (r, p)) = r"
  using assms
proof (induction js arbitrary: p)
  case Nil
  then show ?case by simp
next
  case (Cons j js)
  then have "fluct_step obs j (r, p) = (r, 1)"
    by (auto simp add: fluct_step_def Let_def)
  with Cons show ?case by simp
qed

lemma decreasing_not_fluctuating:
  "sorted_wrt (\<lambda>x y. x > y) (map obs_value obs) \<Longrightarrow> \<forall>ob \<in> set obs. is_double (obs_value ob)
     \<Longrightarrow> \<not> is_fluctuating obs"
  using fold_fluct_all_negative [of "[1 ..< length obs]" obs 0 0] decreasing_step [of obs]
  by (simp add: is_fluctuating_def)

lemma increasing_not_fluctuating:
  "sorted_wrt (\<lambda>x y. x < y) (map obs_value obs) \<Longrightarrow> \<forall>ob \<in> set obs. is_double (obs_value ob)
     \<Longrightarrow> \<not> is_fluctuating obs"
  using fold_fluct_all_positive [of "[1 ..< length obs]" obs 0 0] increasing_step [of obs]
  by (simp add: is_fluctuating_def)

lemma decreasing_slope:
  assumes "sorted_wrt (\<lambda>x y. x > y) (map obs_value obs)"
      and "\<forall>ob \<in> set obs. is_double (obs_value ob)" and "2 \<le> length obs"
  shows "slope_sign obs = -1"
proof -
  let ?diffs = "map (\<lambda>i. fl_sub (obs_value (obs ! i)) (obs_value (obs ! (i - 1)))) [1 ..< length obs]"
  have neg: "\<forall>d \<in> set ?diffs. d < 0"
    using decreasing_step [OF assms(1,2)] by auto
  then have "filter (\<lambda>d. d > 0) ?diffs = []"
    by (auto simp add: filter_empty_conv simp del: set_upt)
  moreover from neg have "filter (\<lambda>d. d < 0) ?diffs = ?diffs"
    by (auto simp add: filter_id_conv simp del: set_upt)
  moreover have "length ?diffs = length obs - 1" by simp
  ultimately show ?thesis
    using assms(3) by (simp add: slope_sign_def Let_def del: map_eq_conv)
qed

lemma increasing_slope:
  assumes "sorted_wrt (\<lambda>x y. x < y) (map obs_value obs)"
      and "\<forall>ob \<in> set obs. is_double (obs_value ob)" and "2 \<le> length obs"
  shows "slope_sign obs = 1"
proof -
  let ?diffs = "map (\<lambda>i. fl_sub (obs_value (obs ! i)) (obs_value (obs ! (i - 1)))) [1 ..< length obs]"
  have pos: "\<forall>d \<in> set ?diffs. d > 0"
    using increasing_step [OF assms(1,2)] by auto
  then have "filter (\<lambda>d. d < 0) ?diffs = []"
    by (auto simp add: filter_empty_conv simp del: set_upt)
  moreover from pos have "filter (\<lambda>d. d > 0) ?diffs = ?diffs"
    by (auto simp add: filter_id_conv simp del: set_upt)
  moreover have "length ?diffs = length obs - 1" by simp
  ultimately show ?thesis
    using assms(3) by (simp add: slope_sign_def Let_def del: map_eq_conv)
qed

lemma determine_direction_decreasing:
  assumes "sorted_wrt (\<lambda>x y. x > y) (map obs_value obs)"
      and "\<forall>ob \<in> set obs. is_double (obs_value ob)" and "2 \<le> length obs"
      and "f = Flag_high \<or> f = Flag_critical_high"
  shows "determine_direction obs f = improving"
  using assms(3,4) decreasing_not_fluctuating [OF assms(1,2)] decreasing_slope [OF assms(1,2,3)]
  by (auto simp add: determine_direction_def)

lemma determine_direction_increasing:
  assumes "sorted_wrt (\<lambda>x y. x < y) (map obs_value obs)"
      and "\<forall>ob \<in> set obs. is_double (obs_value ob)" and "2 \<le> length obs"
      and "f = Flag_high \<or> f = Flag_critical_high"
  shows "determine_direction obs f = worsening"
  using assms(3,4) increasing_not_fluctuating [OF assms(1,2)] increasing_slope [OF assms(1,2,3)]
  by (auto simp add: determine_direction_def)

lemma compute_trend_fields:
  assumes "observations a \<noteq> []"
  shows "latest_flag (compute_trend a) = Some (flag_or (flag_computed (last (py_sorted date (observations a))))
            (flag_or (flag_extracted (last (py_sorted date (observations a)))) Flag_normal))"
    and "direction (compute_trend a) = determine_direction (py_sorted date (observations a))
           (the (latest_flag (compute_trend a)))"
    and "trend_observations (compute_trend a) = py_sorted date (observations a)"
proof -
  from assms have "py_sorted date (observations a) \<noteq> []"
    unfolding py_sorted_def by (metis length_0_conv length_sort)
  then show "latest_flag (compute_trend a) = Some (flag_or (flag_computed (last (py_sorted date (observations a))))
            (flag_or (flag_extracted (last (py_sorted date (observations a)))) Flag_normal))"
    and "direction (compute_trend a) = determine_direction (py_sorted date (observations a))
           (the (latest_flag (compute_trend a)))"
    and "trend_observations (compute_trend a) = py_sorted date (observations a)"
    by (simp_all add: compute_trend_def Let_def)
qed

text \<open>
  With fewer than two observations \<open>_determine_direction\<close> returns \<open>stable\<close> whatever the
  flag is (the repository's \<open>test_single_observation_stable\<close>); the specification
  determines a direction from two observations on.
\<close>

lemma single_observation_stable:
  "direction (compute_trend
        (LabAnalyte_init\<lparr>analyte_key := cps ''potassium'',
           observations := [(Observation_init 738886 6.0)\<lparr>flag_computed := Some Flag_high\<rparr>]\<rparr>))
     = stable"
  by (simp add: compute_trend_def LabAnalyte_init_def Observation_init_def py_sorted_def
      determine_direction_def flag_or_def Let_def)

text \<open>
  Claim C6: for an analyte with at least two observations, whose values are floats and
  whose latest flag is \<open>high\<close> or \<open>critical_high\<close>, \<open>compute_trend\<close> returns direction
  \<open>improving\<close> when the date-sorted observations are strictly decreasing in value, and
  \<open>worsening\<close> when they are strictly increasing.
\<close>

theorem C6_monotone_trend:
  assumes "2 \<le> length (observations a)"
      and "\<forall>ob \<in> set (observations a). is_double (obs_value ob)"
      and "latest_flag (compute_trend a) = Some Flag_high
           \<or> latest_flag (compute_trend a) = Some Flag_critical_high"
  shows "(sorted_wrt (\<lambda>x y. x > y) (map obs_value (py_sorted date (observations a)))
            \<longrightarrow> direction (compute_trend a) = improving) \<and>
         (sorted_wrt (\<lambda>x y. x < y) (map obs_value (py_sorted date (observations a)))
            \<longrightarrow> direction (compute_trend a) = worsening)"
proof -
  from assms(1) have ne: "observations a \<noteq> []" by auto
  have len: "2 \<le> length (py_sorted date (observations a))"
    using assms(1) by (simp add: py_sorted_def)
  have dbl: "\<forall>ob \<in> set (py_sorted date (observations a)). is_double (obs_value ob)"
    using assms(2) by (simp add: py_sorted_def)
  from assms(3) have f: "the (latest_flag (compute_trend a)) = Flag_high
        \<or> the (latest_flag (compute_trend a)) = Flag_critical_high" by auto
  show ?thesis
    unfolding compute_trend_fields(2) [OF ne]
    using determine_direction_decreasing [OF _ dbl len f]
      determine_direction_increasing [OF _ dbl len f]
    by blast
qed

lemma is_double_examples:
  "is_double 6" "is_double (11 / 2)" "is_double (21 / 4)"
  "is_double 2" "is_double (5 / 2)" "is_double 3"
  using is_double_of_int [of 6] is_double_of_int [of 2] is_double_of_int [of 3]
    rnd64_exact [of "11 / 2" 11 "- 1"] rnd64_exact [of "21 / 4" 21 "- 2"]
    rnd64_exact [of "5 / 2" 5 "- 1"]
  by (simp_all add: is_double_def)

theorem C6_monotone_trend_witness:
  "direction (compute_trend
      (LabAnalyte_init\<lparr>analyte_key := cps ''potassium'', observations :=
         [(Observation_init 738888 5.25)\<lparr>flag_computed := Some Flag_high\<rparr>,
          (Observation_init 738886 6.0)\<lparr>flag_computed := Some Flag_high\<rparr>,
          (Observation_init 738887 5.5)\<lparr>flag_computed := Some Flag_high\<rparr>]\<rparr>)) = improving \<and>
   direction (compute_trend
      (LabAnalyte_init\<lparr>analyte_key := cps ''creatinine'', observations :=
         [(Observation_init 738886 2.0)\<lparr>flag_computed := Some Flag_high\<rparr>,
          (Observation_init 738887 2.5)\<lparr>flag_computed := Some Flag_high\<rparr>,
          (Observation_init 738888 3.0)\<lparr>flag_extracted := Some Flag_critical_high\<rparr>]\<rparr>)) = worsening"
  using C6_monotone_trend [of
      "LabAnalyte_init\<lparr>analyte_key := cps ''potassium'', observations :=
         [(Observation_init 738888 5.25)\<lparr>flag_computed := Some Flag_high\<rparr>,
          (Observation_init 738886 6.0)\<lparr>flag_computed := Some Flag_high\<rparr>,
          (Observation_init 738887 5.5)\<lparr>flag_computed := Some Flag_high\<rparr>]\<rparr>"]
    C6_monotone_trend [of
      "LabAnalyte_init\<lparr>analyte_key := cps ''creatinine'', observations :=
         [(Observation_init 738886 2.0)\<lparr>flag_computed := Some Flag_high\<rparr>,
          (Observation_init 738887 2.5)\<lparr>flag_computed := Some Flag_high\<rparr>,
          (Observation_init 738888 3.0)\<lparr>flag_extracted := Some Flag_critical_high\<rparr>]\<rparr>"]
  by (simp add: compute_trend_fields LabAnalyte_init_def Observation_init_def py_sorted_def
      flag_or_def is_double_examples)


section \<open>Properties of the merge engine\<close>

subsection \<open>The loops as one fold, and the invariant of the accumulator\<close>


lemma fold_concat_fold: "fold f (concat xss) s = fold (fold f) xss s"
  by (induction xss arbitrary: s) simp_all

lemma merge_report_items: "merge_report F r m = fold (merge_item F) (report_items r) m"
proof -
  have "fold (merge_item F) (map (Pair i) as) s = fold (merge_analyte F i) as s" for i as s
    by (induction as arbitrary: s) (simp_all add: merge_item_def)
  then have "fold (fold (merge_item F))
               (map (\<lambda>panel. map (Pair i) (results panel)) ps) s
             = fold (merge_panel F i) ps s" for i ps s
    by (induction ps arbitrary: s) (simp_all add: merge_panel_def)
  then show ?thesis
    by (simp add: merge_report_def report_items_def fold_concat_fold)
qed

lemma fold_merge_report_items:
  "fold (merge_report F) rs m = fold (merge_item F) (concat (map report_items rs)) m"
  by (induction rs arbitrary: m) (simp_all add: merge_report_items)

lemma merge_analyte_update:
  "merge_analyte F i a m =
     AList.update (merge_key F a)
       (fst (entry_for F m a), fold (tag_and_store F i) (observations a) (snd (entry_for F m a))) m"
  by (simp add: merge_analyte_def entry_for_def Let_def split: option.splits prod.splits)

lemma obs_key_tag [simp]: "obs_key F (ob\<lparr>source_image_id := i\<rparr>) = obs_key F ob"
  by (simp add: obs_key_def)

lemma merge_key_observations [simp]: "merge_key F (a\<lparr>observations := os\<rparr>) = merge_key F a"
  by (simp add: merge_key_def)

lemma tag_and_store_update:
  "tag_and_store F i ob d = AList.update (obs_key F ob) (ob\<lparr>source_image_id := i\<rparr>) d"
  by (simp add: tag_and_store_def Let_def)











subsection \<open>Last writer wins\<close>




lemma map_of_merge_analyte:
  "map_of (merge_analyte F i a m) k =
     (if k = merge_key F a
      then Some (fst (entry_for F m a),
                 fold (tag_and_store F i) (observations a) (snd (entry_for F m a)))
      else map_of m k)"
  by (simp add: merge_analyte_update update_conv')







subsection \<open>Reading the assembled timeline\<close>






text \<open>
  Two observations with the same date and the same float have the same key, whatever
  the formatter writes.
\<close>

lemma obs_key_same_date_value:
  "date o1 = date o2 \<Longrightarrow> obs_value o1 = obs_value o2 \<Longrightarrow> obs_key F o1 = obs_key F o2"
  by (simp add: obs_key_def)




text \<open>
  The same input evaluated, for every formatter: \<open>test_dedup_same_date_value\<close> of the
  repository.
\<close>

lemma merge_dedup_same_date_value:
  "merge_reports F
     [make_report (cps ''img1'') [sodium_with [Observation_init 738886 140.0]],
      make_report (cps ''img2'') [sodium_with [Observation_init 738886 140.0]]]
   = [sodium_with [(Observation_init 738886 140.0)\<lparr>source_image_id := cps ''img2''\<rparr>]]"
  by (simp add: merge_reports_def merge_report_def merge_panel_def merge_analyte_def
      tag_and_store_def assemble_def make_report_def sodium_with_def py_sorted_def
      obs_key_def Observation_init_def LabAnalyte_init_def)

text \<open>
  Observations whose keys differ are kept apart, also when their dates are equal and
  their values compare equal: this is the case of \<open>0.0\<close> and \<open>-0.0\<close>, which the runtime
  writes differently.
\<close>

lemma merge_keeps_different_keys:
  assumes "obs_key F o1 \<noteq> obs_key F o2" and "date o1 \<le> date o2"
  shows "merge_reports F
           [make_report i1 [a\<lparr>observations := [o1]\<rparr>],
            make_report i2 [a\<lparr>observations := [o2]\<rparr>]]
         = [a\<lparr>observations := [o1\<lparr>source_image_id := i1\<rparr>,
                                 o2\<lparr>source_image_id := i2\<rparr>]\<rparr>]"
  using assms
  by (simp add: merge_reports_def merge_report_def merge_panel_def merge_analyte_def
      tag_and_store_def assemble_def make_report_def py_sorted_def obs_key_def merge_key_def)



subsection \<open>Merging a list twice\<close>

lemma keys_tag_and_store_present:
  "obs_key F ob \<in> fst ` set d \<Longrightarrow> map fst (tag_and_store F i ob d) = map fst d"
  by (simp add: tag_and_store_update update_keys)

lemma keys_tag_and_store_grow: "fst ` set d \<subseteq> fst ` set (tag_and_store F i ob d)"
  by (auto simp add: tag_and_store_update dom_update)

lemma keys_tag_and_store_self: "obs_key F ob \<in> fst ` set (tag_and_store F i ob d)"
  by (simp add: tag_and_store_update dom_update)

lemma keys_fold_present:
  "list_all (\<lambda>ob. obs_key F ob \<in> fst ` set d) os
     \<Longrightarrow> map fst (fold (tag_and_store F i) os d) = map fst d"
proof (induction os arbitrary: d)
  case Nil
  then show ?case by simp
next
  case (Cons ob os)
  then have k: "map fst (tag_and_store F i ob d) = map fst d"
    by (simp add: keys_tag_and_store_present)
  then have "fst ` set (tag_and_store F i ob d) = fst ` set d"
    by (metis set_map)
  with Cons.prems have "list_all (\<lambda>x. obs_key F x \<in> fst ` set (tag_and_store F i ob d)) os"
    by simp
  then have "map fst (fold (tag_and_store F i) os (tag_and_store F i ob d))
               = map fst (tag_and_store F i ob d)"
    by (rule Cons.IH)
  with k show ?case by simp
qed

lemma keys_fold_grow: "fst ` set d \<subseteq> fst ` set (fold (tag_and_store F i) os d)"
proof (induction os arbitrary: d)
  case Nil
  then show ?case by simp
next
  case (Cons ob os)
  have "fst ` set d \<subseteq> fst ` set (tag_and_store F i ob d)"
    by (rule keys_tag_and_store_grow)
  also have "\<dots> \<subseteq> fst ` set (fold (tag_and_store F i) os (tag_and_store F i ob d))"
    by (rule Cons.IH)
  finally show ?case by simp
qed

lemma keys_fold_self:
  "list_all (\<lambda>ob. obs_key F ob \<in> fst ` set (fold (tag_and_store F i) os d)) os"
proof (induction os arbitrary: d)
  case Nil
  then show ?case by simp
next
  case (Cons ob os)
  have "obs_key F ob \<in> fst ` set (tag_and_store F i ob d)"
    by (rule keys_tag_and_store_self)
  then have "obs_key F ob \<in> fst ` set (fold (tag_and_store F i) os (tag_and_store F i ob d))"
    using keys_fold_grow by blast
  with Cons.IH show ?case by simp
qed

lemma shape_update_present:
  assumes "map_of m k = Some e" and "map fst (snd v) = map fst (snd e)"
  shows "shape (AList.update k v m) = shape m"
  using assms
proof (induction m)
  case Nil
  then show ?case by simp
next
  case (Cons x m)
  then show ?case by (cases x) (auto simp add: shape_def)
qed

lemma covered_entry:
  "covered F m a \<Longrightarrow> map_of m (merge_key F a) = Some (entry_for F m a)"
  by (auto simp add: covered_def entry_for_def split: option.splits)

lemma covered_keys:
  "covered F m a \<Longrightarrow>
     list_all (\<lambda>ob. obs_key F ob \<in> fst ` set (snd (entry_for F m a))) (observations a)"
  by (auto simp add: covered_def entry_for_def split: option.splits)

lemma shape_merge_analyte_covered:
  assumes "covered F m a"
  shows "shape (merge_analyte F i a m) = shape m"
  unfolding merge_analyte_update
  using covered_entry [OF assms] keys_fold_present [OF covered_keys [OF assms]]
  by (intro shape_update_present) simp_all

lemma covered_merge_analyte_self: "covered F (merge_analyte F i a m) a"
  by (simp add: covered_def map_of_merge_analyte keys_fold_self)

lemma covered_merge_analyte_keep:
  assumes "covered F m a"
  shows "covered F (merge_analyte F i b m) a"
proof (cases "merge_key F a = merge_key F b")
  case True
  then have e: "entry_for F m b = entry_for F m a"
    using covered_entry [OF assms] by (auto simp add: entry_for_def split: option.splits)
  have "fst ` set (snd (entry_for F m a))
          \<subseteq> fst ` set (fold (tag_and_store F i) (observations b) (snd (entry_for F m a)))"
    by (rule keys_fold_grow)
  with covered_keys [OF assms] True e show ?thesis
    unfolding covered_def list_all_iff by (auto simp add: map_of_merge_analyte)
next
  case False
  with assms show ?thesis by (simp add: covered_def map_of_merge_analyte)
qed

lemma covered_fold_keep: "covered F m a \<Longrightarrow> covered F (fold (merge_item F) xs m) a"
  by (induction xs arbitrary: m) (simp_all add: merge_item_def covered_merge_analyte_keep)

lemma covered_fold_all: "\<forall>x \<in> set xs. covered F (fold (merge_item F) xs m) (snd x)"
proof (induction xs arbitrary: m)
  case Nil
  then show ?case by simp
next
  case (Cons x xs)
  have "covered F (merge_item F x m) (snd x)"
    by (simp add: merge_item_def covered_merge_analyte_self)
  then have "covered F (fold (merge_item F) xs (merge_item F x m)) (snd x)"
    by (rule covered_fold_keep)
  with Cons.IH show ?case by simp
qed

lemma shape_fold_covered:
  "\<forall>x \<in> set xs. covered F m (snd x) \<Longrightarrow> shape (fold (merge_item F) xs m) = shape m"
proof (induction xs arbitrary: m)
  case Nil
  then show ?case by simp
next
  case (Cons x xs)
  have s: "shape (merge_item F x m) = shape m"
    using Cons.prems by (simp add: merge_item_def shape_merge_analyte_covered)
  have "\<forall>y \<in> set xs. covered F (merge_item F x m) (snd y)"
    using Cons.prems by (simp add: merge_item_def covered_merge_analyte_keep)
  then have "shape (fold (merge_item F) xs (merge_item F x m)) = shape (merge_item F x m)"
    by (rule Cons.IH)
  with s show ?case by simp
qed

lemma shape_merge_twice:
  "shape (fold (merge_report F) (rs @ rs) []) = shape (fold (merge_report F) rs [])"
  unfolding fold_merge_report_items
  using shape_fold_covered [OF covered_fold_all] by simp

lemma total_observations_shape:
  "total_observations (assemble m) = sum_list (map (\<lambda>e. length (snd e)) (shape m))"
  by (simp add: total_observations_def assemble_def shape_def py_sorted_def comp_def
      case_prod_beta)

text \<open>
  Claim C5: merging a list of reports concatenated with itself gives the same total
  number of observations, summed over the merged analytes, as merging the list once.
  The second pass finds every merge key and every observation key already present, so
  it leaves the keys of the accumulator as they are.
\<close>

theorem C5_merge_twice_same_count:
  "total_observations (merge_reports F (rs @ rs)) = total_observations (merge_reports F rs)"
  unfolding merge_reports_def total_observations_shape shape_merge_twice ..


section \<open>Properties of the unit normalizer\<close>

lemmas ascii_eval = cps_def py_strip_def py_isspace_def is_ascii_def py_lower_def
  ascii_lower_def ascii_isupper_def

lemma normalize_unit_g_dL: "normalize_unit U (cps ''g/dL'') = cps ''g/dL''"
  by (simp add: normalize_unit_def dict_get_def UNIT_ALIASES_def ascii_eval)

lemma normalize_unit_g_L: "normalize_unit U (cps ''g/L'') = cps ''g/L''"
  by (simp add: normalize_unit_def dict_get_def UNIT_ALIASES_def ascii_eval)

lemma normalize_unit_fL: "normalize_unit U (cps ''fL'') = cps ''fL''"
  by (simp add: normalize_unit_def dict_get_def UNIT_ALIASES_def ascii_eval)

lemma normalize_unit_mg_dL: "normalize_unit U (cps ''mg/dL'') = cps ''mg/dL''"
  by (simp add: normalize_unit_def dict_get_def UNIT_ALIASES_def ascii_eval)

text \<open>Spellings in another case or with white space have the same canonical unit.\<close>

lemma normalize_unit_g_dl_lower: "normalize_unit U (cps ''g/dl'') = cps ''g/dL''"
  by (simp add: normalize_unit_def dict_get_def UNIT_ALIASES_def ascii_eval)

lemma normalize_unit_g_l_lower: "normalize_unit U (cps ''g/l'') = cps ''g/L''"
  by (simp add: normalize_unit_def dict_get_def UNIT_ALIASES_def ascii_eval)

lemma normalize_unit_G_L_spaced: "normalize_unit U (cps '' G / L '') = cps ''g/L''"
  by (simp add: normalize_unit_def dict_get_def UNIT_ALIASES_def ascii_eval)

lemma normalize_unit_mmol_l_lower: "normalize_unit U (cps ''mmol/l'') = cps ''mmol/L''"
  by (simp add: normalize_unit_def dict_get_def UNIT_ALIASES_def ascii_eval)

lemma normalize_unit_MMOL_L_upper: "normalize_unit U (cps '' MMOL/L'') = cps ''mmol/L''"
  by (simp add: normalize_unit_def dict_get_def UNIT_ALIASES_def ascii_eval)

lemma normalize_unit_FL_upper: "normalize_unit U (cps ''FL'') = cps ''fL''"
  by (simp add: normalize_unit_def dict_get_def UNIT_ALIASES_def ascii_eval)

lemma normalize_unit_MG_DL_upper: "normalize_unit U (cps ''MG/DL'') = cps ''mg/dL''"
  by (simp add: normalize_unit_def dict_get_def UNIT_ALIASES_def ascii_eval)

text \<open>A unit that the alias table does not know is its trimmed text.\<close>

lemma normalize_unit_unknown: "normalize_unit U (cps '' ug/L '') = cps ''ug/L''"
  by (simp add: normalize_unit_def dict_get_def UNIT_ALIASES_def ascii_eval)

lemma factor_g_dL_g_L: "map_of CONVERSIONS (cps ''g/dL'', cps ''g/L'') = Some 10"
  using rnd64_of_int [of 10] by (simp add: CONVERSIONS_def cps_def flt_def)

lemma factor_fL_mg_dL: "map_of CONVERSIONS (cps ''fL'', cps ''mg/dL'') = None"
  by (simp add: CONVERSIONS_def cps_def)

lemma fl_mul_one_ten: "fl_mul 1 10 = 10"
  using rnd64_of_int [of 10] by (simp add: fl_mul_def)

text \<open>
  Claim C9: \<open>convert_value\<close> normalizes both units; equal canonical units give the value
  back unchanged, otherwise the value is multiplied, in floating point, by the factor
  that the conversion table holds for the directed pair, and a pair without a factor
  gives \<open>None\<close>.  So \<open>convert_value(1.0, "g/dL", "g/L")\<close> is 10.0, also in the spelling
  \<open>"g/dl"\<close>, \<open>"g/l"\<close> of the repository's test and with capitals and white space;
  two spellings of one unit give the value back; and \<open>convert_value(x, "fL", "mg/dL")\<close> is
  \<open>None\<close> for every \<open>x\<close>, also in capitals.
\<close>

theorem C9_convert_value:
  "convert_value U v from_unit to_unit =
     (if normalize_unit U from_unit = normalize_unit U to_unit then Some v
      else (case map_of CONVERSIONS (normalize_unit U from_unit, normalize_unit U to_unit) of
              Some factor \<Rightarrow> Some (fl_mul v factor)
            | None \<Rightarrow> None)) \<and>
   convert_value U 1.0 (cps ''g/dL'') (cps ''g/L'') = Some 10.0 \<and>
   convert_value U 1.0 (cps ''g/dl'') (cps ''g/l'') = Some 10.0 \<and>
   convert_value U 1.0 (cps ''g/dl'') (cps '' G / L '') = Some 10.0 \<and>
   convert_value U x (cps ''mmol/l'') (cps '' MMOL/L'') = Some x \<and>
   convert_value U x (cps ''fL'') (cps ''mg/dL'') = None \<and>
   convert_value U x (cps ''FL'') (cps ''MG/DL'') = None"
proof -
  have ne: "cps ''g/dL'' \<noteq> cps ''g/L''" "cps ''fL'' \<noteq> cps ''mg/dL''"
    by (simp_all add: cps_def)
  have a: "convert_value U 1.0 (cps ''g/dL'') (cps ''g/L'') = Some 10.0"
    unfolding convert_value_def normalize_unit_g_dL normalize_unit_g_L
    by (simp add: ne factor_g_dL_g_L fl_mul_one_ten)
  have b: "convert_value U 1.0 (cps ''g/dl'') (cps ''g/l'') = Some 10.0"
    unfolding convert_value_def normalize_unit_g_dl_lower normalize_unit_g_l_lower
    by (simp add: ne factor_g_dL_g_L fl_mul_one_ten)
  have c: "convert_value U 1.0 (cps ''g/dl'') (cps '' G / L '') = Some 10.0"
    unfolding convert_value_def normalize_unit_g_dl_lower normalize_unit_G_L_spaced
    by (simp add: ne factor_g_dL_g_L fl_mul_one_ten)
  have d: "convert_value U x (cps ''mmol/l'') (cps '' MMOL/L'') = Some x"
    unfolding convert_value_def normalize_unit_mmol_l_lower normalize_unit_MMOL_L_upper
    by simp
  have e: "convert_value U x (cps ''fL'') (cps ''mg/dL'') = None"
    unfolding convert_value_def normalize_unit_fL normalize_unit_mg_dL
    by (simp add: ne factor_fL_mg_dL)
  have f: "convert_value U x (cps ''FL'') (cps ''MG/DL'') = None"
    unfolding convert_value_def normalize_unit_FL_upper normalize_unit_MG_DL_upper
    by (simp add: ne factor_fL_mg_dL)
  have g: "convert_value U v from_unit to_unit =
     (if normalize_unit U from_unit = normalize_unit U to_unit then Some v
      else (case map_of CONVERSIONS (normalize_unit U from_unit, normalize_unit U to_unit) of
              Some factor \<Rightarrow> Some (fl_mul v factor)
            | None \<Rightarrow> None))"
    by (simp add: convert_value_def Let_def split: option.splits)
  from a b c d e f g show ?thesis by blast
qed

text \<open>
  The product is rounded: 7.0 g/L is \<open>0.7000000000000001\<close> g/dL, a double above the
  one nearest to 0.7.  A table entry is found only for the canonical spelling: \<open>ug/L\<close> is
  no alias, so \<open>"UG/L"\<close> is not converted.
\<close>

lemma convert_value_rounds:
  "convert_value U 7.0 (cps ''g/L'') (cps ''g/dL'') = Some (flt 0.7000000000000001) \<and>
   flt 0.7 < flt 0.7000000000000001"
proof -
  have "fl_mul 7 (flt (1 / 10)) = flt 0.7000000000000001 \<and> flt 0.7 < flt 0.7000000000000001"
    unfolding fl_mul_def flt_def by code_simp
  moreover have "cps ''g/L'' \<noteq> cps ''g/dL''" by (simp add: cps_def)
  moreover have "map_of CONVERSIONS (cps ''g/L'', cps ''g/dL'') = Some (flt (1 / 10))"
    by (simp add: CONVERSIONS_def cps_def)
  ultimately show ?thesis
    unfolding convert_value_def normalize_unit_g_dL normalize_unit_g_L by simp
qed

lemma convert_value_unknown_spelling:
  "convert_value U 2.5 (cps ''ng/mL'') (cps ''ug/L'') = Some 2.5 \<and>
   convert_value U x (cps ''ng/mL'') (cps ''UG/L'') = None"
proof -
  have "normalize_unit U (cps ''ng/mL'') = cps ''ng/mL''"
      and "normalize_unit U (cps ''ug/L'') = cps ''ug/L''"
      and "normalize_unit U (cps ''UG/L'') = cps ''UG/L''"
    by (simp_all add: normalize_unit_def dict_get_def UNIT_ALIASES_def ascii_eval)
  moreover have "map_of CONVERSIONS (cps ''ng/mL'', cps ''ug/L'') = Some 1"
    using rnd64_of_int [of 1] by (simp add: CONVERSIONS_def cps_def flt_def)
  moreover have "map_of CONVERSIONS (cps ''ng/mL'', cps ''UG/L'') = None"
    by (simp add: CONVERSIONS_def cps_def)
  moreover have "cps ''ng/mL'' \<noteq> cps ''ug/L''" "cps ''ng/mL'' \<noteq> cps ''UG/L''"
    by (simp_all add: cps_def)
  moreover have "fl_mul (5 / 2) 1 = 5 / 2"
    using rnd64_exact [of "5 / 2" 5 "- 1"] by (simp add: fl_mul_def)
  ultimately show ?thesis
    unfolding convert_value_def by simp
qed


section \<open>Properties of the reference-range parser\<close>


subsection \<open>What the matchers can return\<close>

lemma m_class_elem: "(x, r) \<in> set (m_class P s) \<Longrightarrow> \<exists>c. x = [c] \<and> P c"
  by (auto simp add: m_class_def split: list.splits if_splits)

lemma m_lit_elem: "(x, r) \<in> set (m_lit w s) \<Longrightarrow> x = w"
  by (auto simp add: m_lit_def split: if_splits)

lemma m_opt_elem: "(x, r) \<in> set (m_opt m s) \<Longrightarrow> (x, r) \<in> set (m s) \<or> x = []"
  by (auto simp add: m_opt_def)

lemma m_seq_elem:
  "(z, r') \<in> set (m_seq a b s)
     \<Longrightarrow> \<exists>x y r. z = x @ y \<and> (x, r) \<in> set (a s) \<and> (y, r') \<in> set (b r)"
  by (fastforce simp add: m_seq_def)

lemma takeWhile_take_all:
  "k \<le> length (takeWhile P s) \<Longrightarrow> list_all P (take k s)"
proof (induction s arbitrary: k)
  case Nil
  then show ?case by simp
next
  case (Cons c s)
  then show ?case by (cases k) (auto split: if_splits)
qed

lemma m_plus_class_elem:
  "(x, r) \<in> set (m_plus_class P s) \<Longrightarrow> x \<noteq> [] \<and> list_all P x"
proof -
  assume "(x, r) \<in> set (m_plus_class P s)"
  then obtain k where k: "1 \<le> k" "k \<le> length (takeWhile P s)" and x: "x = take k s"
    by (auto simp add: m_plus_class_def)
  have "length (takeWhile P s) \<le> length s" by (rule length_takeWhile_le)
  with k x have "x \<noteq> []" by auto
  with takeWhile_take_all [OF k(2)] x show ?thesis by simp
qed

subsection \<open>A matched number is read by \<open>float\<close>\<close>

lemma not_decimal_punct [simp]:
  "\<not> py_isdecimal U 43" "\<not> py_isdecimal U 45" "\<not> py_isdecimal U 46"
  by (simp_all add: py_isdecimal_def decimal_value_def is_ascii_def ascii_isdigit_def)

lemma digits_value_Some:
  "ds \<noteq> [] \<Longrightarrow> list_all (py_isdecimal U) ds \<Longrightarrow> \<exists>n. digits_value U ds = Some n"
  by (simp add: digits_value_def)

lemma digits_no_point: "list_all (py_isdecimal U) ds \<Longrightarrow> 46 \<notin> set ds"
  by (auto simp add: list_all_iff)

lemma py_float_unsigned:
  assumes "ds \<noteq> []" and "list_all (py_isdecimal U) ds"
      and "fr = [] \<or> (\<exists>fs. fr = 46 # fs \<and> fs \<noteq> [] \<and> list_all (py_isdecimal U) fs)"
      and "neg \<longrightarrow> sg = [45]" and "\<not> neg \<longrightarrow> sg = [] \<or> sg = [43]"
  shows "\<exists>x. py_float U (sg @ ds @ fr) = Inr x"
proof -
  obtain d ds' where ds: "ds = d # ds'" using assms(1) by (cases ds) auto
  have d: "d \<noteq> 45" "d \<noteq> 43" "d \<noteq> 46"
    using assms(2) ds not_decimal_punct [of U] by auto
  have body: "(if (sg @ ds @ fr) \<noteq> [] \<and> (hd (sg @ ds @ fr) = 45 \<or> hd (sg @ ds @ fr) = 43)
               then tl (sg @ ds @ fr) else sg @ ds @ fr) = ds @ fr"
    using assms(4,5) ds d by (cases neg) auto
  have np: "\<forall>c \<in> set ds. c \<noteq> 46"
    using digits_no_point [OF assms(2)] by auto
  obtain n where n: "digits_value U ds = Some n"
    using digits_value_Some [OF assms(1,2)] by blast
  from assms(3) show ?thesis
  proof
    assume "fr = []"
    then have "takeWhile (\<lambda>c. c \<noteq> 46) (ds @ fr) = ds" "dropWhile (\<lambda>c. c \<noteq> 46) (ds @ fr) = []"
      using np by simp_all
    then show ?thesis
      unfolding py_float_def Let_def body using n by simp
  next
    assume "\<exists>fs. fr = 46 # fs \<and> fs \<noteq> [] \<and> list_all (py_isdecimal U) fs"
    then obtain fs where fr: "fr = 46 # fs" and fs: "fs \<noteq> []" "list_all (py_isdecimal U) fs"
      by blast
    obtain f where f: "digits_value U fs = Some f"
      using digits_value_Some [OF fs] by blast
    have "takeWhile (\<lambda>c. c \<noteq> 46) (ds @ fr) = ds" "dropWhile (\<lambda>c. c \<noteq> 46) (ds @ fr) = 46 # fs"
      using np fr by simp_all
    then show ?thesis
      unfolding py_float_def Let_def body using n f by simp
  qed
qed

lemma NUM_float:
  assumes "(x, r) \<in> set (NUM U s)"
  shows "\<exists>v. py_float U x = Inr v"
proof -
  from assms obtain sg y r1 where x: "x = sg @ y"
      and sg: "(sg, r1) \<in> set (m_opt (m_class (\<lambda>c. c = 43 \<or> c = 45)) s)"
      and y: "(y, r) \<in> set (m_seq (m_plus_class (py_isdecimal U))
                 (m_opt (m_seq (m_lit (cps ''.'')) (m_plus_class (py_isdecimal U)))) r1)"
    unfolding NUM_def by (blast dest: m_seq_elem)
  from y obtain ds fr r2 where y': "y = ds @ fr"
      and ds: "(ds, r2) \<in> set (m_plus_class (py_isdecimal U) r1)"
      and fr: "(fr, r) \<in> set (m_opt (m_seq (m_lit (cps ''.'')) (m_plus_class (py_isdecimal U))) r2)"
    by (blast dest: m_seq_elem)
  from sg have sg': "sg = [] \<or> sg = [43] \<or> sg = [45]"
    by (auto dest!: m_opt_elem m_class_elem)
  from ds have ds': "ds \<noteq> []" "list_all (py_isdecimal U) ds"
    by (auto dest: m_plus_class_elem)
  from fr have fr': "fr = [] \<or> (\<exists>fs. fr = 46 # fs \<and> fs \<noteq> [] \<and> list_all (py_isdecimal U) fs)"
  proof -
    from fr have "(fr, r) \<in> set (m_seq (m_lit (cps ''.'')) (m_plus_class (py_isdecimal U)) r2)
                  \<or> fr = []"
      by (rule m_opt_elem)
    then show ?thesis
    proof
      assume "(fr, r) \<in> set (m_seq (m_lit (cps ''.'')) (m_plus_class (py_isdecimal U)) r2)"
      then obtain p fs r3 where "fr = p @ fs" "(p, r3) \<in> set (m_lit (cps ''.'') r2)"
          "(fs, r) \<in> set (m_plus_class (py_isdecimal U) r3)"
        by (blast dest: m_seq_elem)
      then show ?thesis
        by (auto dest!: m_lit_elem m_plus_class_elem simp add: cps_def)
    qed simp
  qed
  show ?thesis
    unfolding x y'
    using py_float_unsigned [OF ds' fr', of "sg = [45]" sg] sg' by auto
qed

lemma re_search_elem:
  "re_search m s = Some x \<Longrightarrow> \<exists>t r. (x, r) \<in> set (m t)"
proof (induction s)
  case Nil
  then obtain y ys where "m [] = y # ys" "x = fst y"
    by (cases "m []") auto
  then have "(x, snd y) \<in> set (m [])" by simp
  then show ?case by blast
next
  case (Cons c s)
  show ?case
  proof (cases "m (c # s)")
    case Nil
    with Cons show ?thesis by simp
  next
    case (Cons y ys)
    with Cons.prems have "x = fst y" by simp
    with Cons have "(x, snd y) \<in> set (m (c # s))" by simp
    then show ?thesis by blast
  qed
qed

lemma RANGE_RE_float:
  assumes "re_search (RANGE_RE U) s = Some (lo, hi)"
  shows "\<exists>l h. py_float U lo = Inr l \<and> py_float U hi = Inr h"
proof -
  from re_search_elem [OF assms] obtain t r where "((lo, hi), r) \<in> set (RANGE_RE U t)"
    by blast
  then obtain r1 r4 where "(lo, r1) \<in> set (NUM U t)" "(hi, r) \<in> set (NUM U r4)"
    by (auto simp add: RANGE_RE_def)
  then show ?thesis using NUM_float by blast
qed

lemma UPPER_ONLY_RE_float:
  assumes "re_search (UPPER_ONLY_RE U) s = Some hi"
  shows "\<exists>h. py_float U hi = Inr h"
proof -
  from re_search_elem [OF assms] obtain t r where "(hi, r) \<in> set (UPPER_ONLY_RE U t)"
    by blast
  then obtain r1 where "(hi, r) \<in> set (NUM U r1)"
    by (auto simp add: UPPER_ONLY_RE_def)
  then show ?thesis using NUM_float by blast
qed

lemma LOWER_ONLY_RE_float:
  assumes "re_search (LOWER_ONLY_RE U) s = Some lo"
  shows "\<exists>l. py_float U lo = Inr l"
proof -
  from re_search_elem [OF assms] obtain t r where "(lo, r) \<in> set (LOWER_ONLY_RE U t)"
    by blast
  then obtain r1 where "(lo, r) \<in> set (NUM U r1)"
    by (auto simp add: LOWER_ONLY_RE_def)
  then show ?thesis using NUM_float by blast
qed

subsection \<open>No step of the parser raises\<close>

lemma py_split_nonempty: "py_split sep s \<noteq> []"
  by (induction s) (auto split: list.splits)

lemma select_segment_returns: "\<exists>t. select_segment U text = Inr t"
proof -
  have a: "\<exists>seg. py_index (py_split 59 text) 0 = Inr seg"
    using py_split_nonempty [of 59 "text"] by (simp add: py_index_def)
  have b: "58 \<in> set t \<Longrightarrow> \<exists>rest. py_index (py_split_once 58 t) 1 = Inr rest" for t
    by (simp add: py_index_def py_split_once_def)
  show ?thesis
  proof (cases "59 \<in> set text")
    case True
    from a obtain seg where seg: "py_index (py_split 59 text) 0 = Inr seg" by blast
    show ?thesis
    proof (cases "58 \<in> set (py_strip U seg)")
      case True
      note c = this
      from b [OF c] obtain rest where "py_index (py_split_once 58 (py_strip U seg)) 1 = Inr rest"
        by blast
      with \<open>59 \<in> set text\<close> seg c show ?thesis
        by (simp add: select_segment_def and_then_def Let_def)
    next
      case False
      with \<open>59 \<in> set text\<close> seg show ?thesis
        by (simp add: select_segment_def and_then_def Let_def)
    qed
  next
    case False
    then show ?thesis by (simp add: select_segment_def)
  qed
qed

lemma match_bounds_returns:
  "\<exists>r. match_bounds U text raw = Inr r \<and> raw_text r = raw"
proof (cases "re_search (RANGE_RE U) text")
  case (Some p)
  obtain lo hi where p: "p = (lo, hi)" by (cases p)
  from RANGE_RE_float [of U "text" lo hi] Some p
  obtain l h where "py_float U lo = Inr l" "py_float U hi = Inr h" by blast
  with Some p show ?thesis by (simp add: match_bounds_def and_then_def)
next
  case None
  note n1 = this
  show ?thesis
  proof (cases "re_search (UPPER_ONLY_RE U) text")
    case (Some hi)
    from UPPER_ONLY_RE_float [OF Some] obtain h where "py_float U hi = Inr h" by blast
    with n1 Some show ?thesis by (simp add: match_bounds_def and_then_def)
  next
    case None
    note n2 = this
    show ?thesis
    proof (cases "re_search (LOWER_ONLY_RE U) text")
      case (Some lo)
      from LOWER_ONLY_RE_float [OF Some] obtain l where "py_float U lo = Inr l" by blast
      with n1 n2 Some show ?thesis by (simp add: match_bounds_def and_then_def)
    next
      case None
      with n1 n2 show ?thesis by (simp add: match_bounds_def)
    qed
  qed
qed

lemma match_bounds_no_pattern:
  "re_search (RANGE_RE U) text = None \<Longrightarrow> re_search (UPPER_ONLY_RE U) text = None
     \<Longrightarrow> re_search (LOWER_ONLY_RE U) text = None
     \<Longrightarrow> match_bounds U text raw = Inr \<lparr>low = None, high = None, raw_text = raw\<rparr>"
  by (simp add: match_bounds_def)

lemma parse_reference_range_returns:
  "\<exists>r. parse_reference_range U raw = Inr r \<and> raw_text r = raw"
proof -
  obtain t where t: "select_segment U (py_strip U raw) = Inr t"
    using select_segment_returns by blast
  from match_bounds_returns [of U t raw] t show ?thesis
    by (auto simp add: parse_reference_range_def and_then_def Let_def)
qed

lemma parse_negative:
  "parse_reference_range U (cps ''Negative'')
     = Inr \<lparr>low = None, high = None, raw_text = cps ''Negative''\<rparr>"
  by (simp add: parse_reference_range_def py_strip_def cps_def py_isspace_def is_ascii_def
      qualitative_match_def QUALITATIVE_RE_def m_alt_def imatch_def ascii_isupper_def
      ascii_islower_def ascii_lower_def at_end_def Let_def)

lemmas parser_eval = parse_reference_range_def cps_def py_strip_def py_isspace_def is_ascii_def
  select_segment_def qualitative_match_def QUALITATIVE_RE_def m_alt_def imatch_def
  ascii_isupper_def ascii_islower_def ascii_lower_def at_end_def match_bounds_def RANGE_RE_def
  RANGE_SEP_def UPPER_ONLY_RE_def LOWER_ONLY_RE_def BOUND_PREFIX_def NUM_def m_seq_def
  m_opt_def m_class_def m_lit_def m_star_class_def m_plus_class_def py_isdecimal_def
  decimal_value_def ascii_isdigit_def and_then_def py_float_def digits_value_def Let_def

text \<open>
  Ranges of the repository's tests, for every Unicode database.  A bound is the double
  nearest to the decimal of the text: 3.5 and the whole numbers are doubles, 5.1 is not.
\<close>

lemma parse_standard_range:
  "parse_reference_range U (cps ''3.5 - 5.1'')
     = Inr \<lparr>low = Some 3.5, high = Some (flt 5.1), raw_text = cps ''3.5 - 5.1''\<rparr>"
  using rnd64_exact [of "7 / 2" 7 "- 1"]
  by (simp add: parser_eval flt_def)

lemma parse_sodium_range:
  "parse_reference_range U (cps ''136 - 145'')
     = Inr \<lparr>low = Some 136, high = Some 145, raw_text = cps ''136 - 145''\<rparr>"
  using rnd64_of_int [of 136] rnd64_of_int [of 145]
  by (simp add: parser_eval)

lemma parse_upper_only:
  "parse_reference_range U (cps ''<= 5.0'')
     = Inr \<lparr>low = None, high = Some 5.0, raw_text = cps ''<= 5.0''\<rparr>"
  using rnd64_of_int [of 5]
  by (simp add: parser_eval)

text \<open>
  The text \<open>0.00005\<close> is read as the double nearest to it, which lies above it: in the
  format \<open>.4f\<close> it is written \<open>0.0001\<close>, where the decimal itself would be written
  \<open>0.0000\<close>.
\<close>

lemma py_float_nearest_double:
  "py_float U (cps ''0.00005'') = Inr (flt 0.00005)"
  by (simp add: py_float_def digits_value_def py_isdecimal_def decimal_value_def
      ascii_isdigit_def is_ascii_def cps_def flt_def Let_def)

lemma fmt4f_of_the_double:
  "fmt4f (flt 0.00005) = cps ''0.0001'' \<and> fmt4f 0.00005 = cps ''0.0000''"
  unfolding flt_def by code_simp

text \<open>Bounds keep their textual order.\<close>

lemma parse_inverted_range:
  "parse_reference_range U (cps ''5 - 3'')
     = Inr \<lparr>low = Some 5, high = Some 3, raw_text = cps ''5 - 3''\<rparr>"
  using rnd64_of_int [of 5] rnd64_of_int [of 3]
  by (simp add: parser_eval)

text \<open>
  Claim C8: \<open>parse_reference_range\<close> returns for every input string and every Unicode
  database, and the range it returns carries the input, untrimmed, as \<open>raw_text\<close>.  When
  the trimmed input is empty or qualitative, or when none of the three numeric patterns
  is found in the selected segment, the range has neither bound.  The string
  \<open>"Negative"\<close> is such an input.
\<close>

theorem C8_parse_never_raises:
  "(\<exists>r. parse_reference_range U raw = Inr r \<and> raw_text r = raw \<and>
        ((py_strip U raw = [] \<or> qualitative_match U (py_strip U raw) \<or>
          (\<exists>t. select_segment U (py_strip U raw) = Inr t \<and>
               re_search (RANGE_RE U) t = None \<and>
               re_search (UPPER_ONLY_RE U) t = None \<and>
               re_search (LOWER_ONLY_RE U) t = None))
         \<longrightarrow> low r = None \<and> high r = None \<and> \<not> is_bounded r)) \<and>
   (\<exists>r. parse_reference_range U (cps ''Negative'') = Inr r \<and> \<not> is_bounded r \<and>
        raw_text r = cps ''Negative'')"
proof -
  obtain r where r: "parse_reference_range U raw = Inr r" "raw_text r = raw"
    using parse_reference_range_returns by blast
  have "low r = None \<and> high r = None \<and> \<not> is_bounded r"
    if "py_strip U raw = [] \<or> qualitative_match U (py_strip U raw) \<or>
          (\<exists>t. select_segment U (py_strip U raw) = Inr t \<and>
               re_search (RANGE_RE U) t = None \<and>
               re_search (UPPER_ONLY_RE U) t = None \<and>
               re_search (LOWER_ONLY_RE U) t = None)"
  proof -
    from that have "parse_reference_range U raw = Inr \<lparr>low = None, high = None, raw_text = raw\<rparr>"
      using match_bounds_no_pattern [of U _ raw]
      by (auto simp add: parse_reference_range_def and_then_def Let_def)
    with r show ?thesis by (auto simp add: is_bounded_def)
  qed
  with r have "\<exists>r. parse_reference_range U raw = Inr r \<and> raw_text r = raw \<and>
        ((py_strip U raw = [] \<or> qualitative_match U (py_strip U raw) \<or>
          (\<exists>t. select_segment U (py_strip U raw) = Inr t \<and>
               re_search (RANGE_RE U) t = None \<and>
               re_search (UPPER_ONLY_RE U) t = None \<and>
               re_search (LOWER_ONLY_RE U) t = None))
         \<longrightarrow> low r = None \<and> high r = None \<and> \<not> is_bounded r)"
    by blast
  moreover have "\<exists>r. parse_reference_range U (cps ''Negative'') = Inr r \<and> \<not> is_bounded r \<and>
        raw_text r = cps ''Negative''"
    by (simp add: parse_negative is_bounded_def)
  ultimately show ?thesis by blast
qed

theorem C8_parse_never_raises_witness:
  "select_segment ascii_db (py_strip ascii_db (cps '' n/a '')) = Inr (cps ''n/a'') \<and>
   re_search (RANGE_RE ascii_db) (cps ''n/a'') = None \<and>
   re_search (UPPER_ONLY_RE ascii_db) (cps ''n/a'') = None \<and>
   re_search (LOWER_ONLY_RE ascii_db) (cps ''n/a'') = None \<and>
   (\<exists>r. parse_reference_range ascii_db (cps '' n/a '') = Inr r \<and>
        raw_text r = cps '' n/a '' \<and> low r = None \<and> high r = None)"
proof -
  have h: "select_segment ascii_db (py_strip ascii_db (cps '' n/a '')) = Inr (cps ''n/a'') \<and>
      re_search (RANGE_RE ascii_db) (cps ''n/a'') = None \<and>
      re_search (UPPER_ONLY_RE ascii_db) (cps ''n/a'') = None \<and>
      re_search (LOWER_ONLY_RE ascii_db) (cps ''n/a'') = None"
    by (simp add: parser_eval ascii_db_def)
  with C8_parse_never_raises [of ascii_db "cps '' n/a ''"] show ?thesis
    by blast
qed

section \<open>Properties of image validation and of the pipeline\<close>

lemma load_images_empty:
  "load_images env [] mi mm =
     Inl (ImageValidationError (if mi < 0 then TooManyImages 0 mi else NoImagesProvided))"
  by (simp add: load_images_def)

lemma load_images_too_many:
  "int (length ps) > mi \<Longrightarrow>
     load_images env ps mi mm = Inl (ImageValidationError (TooManyImages (length ps) mi))"
  by (simp add: load_images_def)

text \<open>
  Claim C10: \<open>load_images\<close> raises \<open>ImageValidationError\<close> for an empty list of paths and
  for a list longer than \<open>max_images\<close>.  Both entry points call it first with the limits
  of the settings, so \<open>run_full_pipeline\<close> and \<open>run_extract_only\<close> return, raising the same
  error, and an empty batch is never turned into an analysis.
\<close>

theorem C10_batch_validation:
  assumes "image_paths = [] \<or> int (length image_paths) > max_images s"
  shows "\<exists>reason.
           load_images env image_paths (max_images s) (max_image_mb s)
             = Inl (ImageValidationError reason) \<and>
           run_full_pipeline env U F s extractor summarizer enable image_paths
             = Some (Inl (ImageValidationError reason)) \<and>
           run_extract_only env U s extractor image_paths
             = Some (Inl (ImageValidationError reason))"
proof -
  from assms obtain reason where
    "load_images env image_paths (max_images s) (max_image_mb s)
       = Inl (ImageValidationError reason)"
    using load_images_empty [of env "max_images s" "max_image_mb s"]
      load_images_too_many [of "max_images s" image_paths env "max_image_mb s"]
    by (cases "int (length image_paths) > max_images s") auto
  then show ?thesis
    by (simp add: run_full_pipeline_def run_extract_only_def then_await_def Let_def)
qed

theorem C10_batch_validation_witness:
  "run_full_pipeline no_files ascii_db plain_formatter Settings_init failing_extractor
       no_summary None []
     = Some (Inl (ImageValidationError NoImagesProvided)) \<and>
   load_images no_files (replicate 11 (cps ''lab.jpg'')) (max_images Settings_init)
       (max_image_mb Settings_init)
     = Inl (ImageValidationError (TooManyImages 11 10))"
  using C10_batch_validation [of "[]" Settings_init no_files ascii_db plain_formatter
          failing_extractor no_summary None]
        C10_batch_validation [of "replicate 11 (cps ''lab.jpg'')" Settings_init no_files
          ascii_db plain_formatter failing_extractor no_summary None]
  by (simp add: load_images_def Settings_init_def)

text \<open>
  The bound of the semaphore matters only after the images are loaded: a batch that
  passes validation is not extracted when the setting \<open>concurrency\<close> is not positive.
  A negative value raises \<open>ValueError\<close>, and with 0 the call does not return.
\<close>

lemma map_result_length: "map_result f xs = Inr ys \<Longrightarrow> length ys = length xs"
proof (induction xs arbitrary: ys)
  case Nil
  then show ?case by simp
next
  case (Cons x xs)
  then show ?case
    by (auto simp add: and_then_def split: sum.splits)
qed

lemma extraction_needs_positive_concurrency:
  assumes "load_images env image_paths (max_images s) (max_image_mb s) = Inr images"
  shows "(concurrency s < 0 \<longrightarrow>
            run_extract_only env U s extractor image_paths = Some (Inl ValueError)) \<and>
         (concurrency s = 0 \<longrightarrow> run_extract_only env U s extractor image_paths = None)"
proof -
  from assms have "image_paths \<noteq> []" and "length images = length image_paths"
    by (auto simp add: load_images_def map_result_length split: if_splits)
  then have "images \<noteq> []" by auto
  with assms show ?thesis
    by (simp add: run_extract_only_def then_await_def extract_all_def run_concurrently_def)
qed

section \<open>The sodium scenario through the post-processor\<close>

lemma sodium_threshold:
  "fl_add 145 (fl_mul (fl_sub 145 136) (flt (1 / 10))) = flt 145.9 \<and> flt 145.9 < 148"
  unfolding fl_add_def fl_mul_def fl_sub_def flt_def by code_simp

lemma sodium_span: "0 < fl_sub 145 136"
  using fl_sub_pos_iff [of 145 136] is_double_of_int [of 145] is_double_of_int [of 136]
  by simp

lemma sodium_148_flag:
  "compute_flag 148 \<lparr>low = Some 136, high = Some 145, raw_text = t\<rparr> (cps ''sodium'')
     = Flag_critical_high"
  using sodium_threshold sodium_span
  by (simp add: compute_flag_def is_bounded_def py_or_def multiplier_for_sodium)

lemma smoke_sodium_flag:
  "normalize_analyte U smoke_sodium =
     Inr (smoke_sodium\<lparr>
            ref_range := \<lparr>low = Some 136, high = Some 145, raw_text = cps ''136 - 145''\<rparr>,
            observations := [(Observation_init 738886 148.0)\<lparr>raw_value := cps ''148'',
                         flag_extracted := Some Flag_high,
                         flag_computed := Some Flag_critical_high\<rparr>]\<rparr>)"
proof -
  have ne: "cps ''sodium'' \<noteq> []" "cps ''sodium'' \<noteq> cps ''Sodium''" "cps ''Sodium'' \<noteq> []"
    "cps ''mmol/L'' \<noteq> []" "cps ''136 - 145'' \<noteq> []"
    by (simp_all add: cps_def)
  show ?thesis
    by (simp add: normalize_analyte_def smoke_sodium_def ReferenceRange_init_def is_bounded_def
        recompute_flags_def Observation_init_def parse_sodium_range and_then_def
        sodium_148_flag Let_def ne)
qed

text \<open>
  Claim C1 as stated: Sodium 148 against 136--145 with analyte key \<open>sodium\<close> is flagged
  \<open>high\<close>, not critical, because the multiplier is the default 0.5.  The override table
  holds \<open>sodium \<mapsto> 0.10\<close>, so the critical threshold is 145.9 and the flag is not \<open>high\<close>.
\<close>

theorem C1_sodium_148_not_high:
  "compute_flag 148 \<lparr>low = Some 136, high = Some 145, raw_text = cps ''136 - 145''\<rparr>
     (cps ''sodium'') \<noteq> Flag_high"
  by (simp add: sodium_148_flag)

text \<open>
  Claim C1, amended: with analyte key \<open>sodium\<close> the multiplier is the override 0.10 of
  the table, the critical threshold is \<open>145 + 9 * 0.10 = 145.9\<close>, and 148 is flagged
  \<open>critical_high\<close>.  The post-processor, run on the sodium analyte of the smoke test,
  parses the range text to 136--145 and stores \<open>critical_high\<close> as the computed flag.
\<close>

theorem C1_sodium_148_critical:
  "multiplier_for (cps ''sodium'') = flt 0.10 \<and>
   fl_add 145 (fl_mul (fl_sub 145 136) (multiplier_for (cps ''sodium''))) = flt 145.9 \<and>
   compute_flag 148 \<lparr>low = Some 136, high = Some 145, raw_text = t\<rparr> (cps ''sodium'')
     = Flag_critical_high \<and>
   (\<exists>a. normalize_analyte U smoke_sodium = Inr a \<and>
        ref_range a = \<lparr>low = Some 136, high = Some 145, raw_text = cps ''136 - 145''\<rparr> \<and>
        map flag_computed (observations a) = [Some Flag_critical_high])"
  using sodium_threshold
  by (simp add: multiplier_for_sodium sodium_148_flag smoke_sodium_flag)

end
